theory Spec2Isabelle
  imports Main
begin

section \<open>Go values and the library calls the handlers make\<close>

text \<open>
  A Go \<open>string\<close> is a sequence of bytes; it is modelled as a \<open>string\<close> of HOL, whose
  characters are bytes as well. A \<open>time.Time\<close> is modelled as an integer instant, counted
  at the resolution the document store keeps, from the zero value \<open>time.Time{}\<close>.
\<close>

type_synonym time = int

definition zeroTime :: time where
  "zeroTime = 0"

subsection \<open>strings.TrimSpace\<close>

text \<open>
  \<open>strings.TrimSpace\<close> cuts every leading and every trailing white-space rune, as
  \<open>unicode.IsSpace\<close> defines white space. The string is UTF-8, so a white-space rune
  is one of the byte sequences of \<open>spaceRunes\<close>: the six ASCII bytes of the table
  \<open>asciiSpace\<close> (tab, line feed, vertical tab, form feed, carriage return, space), and
  the encodings of U+0085, U+00A0, U+1680, U+2000 to U+200A, U+2028, U+2029, U+202F,
  U+205F and U+3000.
\<close>

definition asciiSpace :: "char \<Rightarrow> bool" where
  "asciiSpace c = (c = CHR 0x09 \<or> c = CHR 0x0A \<or> c = CHR 0x0B \<or> c = CHR 0x0C
                   \<or> c = CHR 0x0D \<or> c = CHR 0x20)"

definition spaceRunes :: "string list" where
  "spaceRunes =
     [[CHR 0x09], [CHR 0x0A], [CHR 0x0B], [CHR 0x0C], [CHR 0x0D], [CHR 0x20],
      [CHR 0xC2, CHR 0x85], [CHR 0xC2, CHR 0xA0],
      [CHR 0xE1, CHR 0x9A, CHR 0x80],
      [CHR 0xE2, CHR 0x80, CHR 0x80], [CHR 0xE2, CHR 0x80, CHR 0x81],
      [CHR 0xE2, CHR 0x80, CHR 0x82], [CHR 0xE2, CHR 0x80, CHR 0x83],
      [CHR 0xE2, CHR 0x80, CHR 0x84], [CHR 0xE2, CHR 0x80, CHR 0x85],
      [CHR 0xE2, CHR 0x80, CHR 0x86], [CHR 0xE2, CHR 0x80, CHR 0x87],
      [CHR 0xE2, CHR 0x80, CHR 0x88], [CHR 0xE2, CHR 0x80, CHR 0x89],
      [CHR 0xE2, CHR 0x80, CHR 0x8A],
      [CHR 0xE2, CHR 0x80, CHR 0xA8], [CHR 0xE2, CHR 0x80, CHR 0xA9],
      [CHR 0xE2, CHR 0x80, CHR 0xAF],
      [CHR 0xE2, CHR 0x81, CHR 0x9F],
      [CHR 0xE3, CHR 0x80, CHR 0x80]]"

text \<open>The width in bytes of the white-space rune a string starts with, 0 when it starts
  with none; and the same for the rune it ends with.\<close>

definition leadingSpace :: "string \<Rightarrow> nat" where
  "leadingSpace s =
     (case find (\<lambda>p. take (length p) s = p) spaceRunes of
        None \<Rightarrow> 0 | Some p \<Rightarrow> length p)"

definition trailingSpace :: "string \<Rightarrow> nat" where
  "trailingSpace s =
     (case find (\<lambda>p. drop (length s - length p) s = p) spaceRunes of
        None \<Rightarrow> 0 | Some p \<Rightarrow> length p)"

function TrimLeft :: "string \<Rightarrow> string" where
  "TrimLeft s = (if leadingSpace s = 0 then s else TrimLeft (drop (leadingSpace s) s))"
  by pat_completeness auto
termination
proof (relation "measure length")
  show "wf (measure length)" by simp
next
  fix s :: string
  assume n0: "leadingSpace s \<noteq> 0"
  then obtain p where p: "find (\<lambda>p. take (length p) s = p) spaceRunes = Some p"
    by (auto simp: leadingSpace_def split: option.splits)
  then have "take (length p) s = p"
    by (auto dest: find_Some_iff [THEN iffD1])
  then have "length p \<le> length s"
    by (metis length_take min.cobounded1)
  with p n0 have "0 < leadingSpace s \<and> leadingSpace s \<le> length s"
    by (simp add: leadingSpace_def)
  then show "(drop (leadingSpace s) s, s) \<in> measure length" by auto
qed

function TrimRight :: "string \<Rightarrow> string" where
  "TrimRight s =
     (if trailingSpace s = 0 then s else TrimRight (take (length s - trailingSpace s) s))"
  by pat_completeness auto
termination
proof (relation "measure length")
  show "wf (measure length)" by simp
next
  fix s :: string
  assume n0: "trailingSpace s \<noteq> 0"
  then obtain p where p: "find (\<lambda>p. drop (length s - length p) s = p) spaceRunes = Some p"
    by (auto simp: trailingSpace_def split: option.splits)
  then have "drop (length s - length p) s = p"
    by (auto dest: find_Some_iff [THEN iffD1])
  then have "length p \<le> length s"
    by (metis diff_le_self length_drop)
  with p n0 have "0 < trailingSpace s \<and> trailingSpace s \<le> length s"
    by (simp add: trailingSpace_def)
  then show "(take (length s - trailingSpace s) s, s) \<in> measure length" by auto
qed

declare TrimLeft.simps [simp del] TrimRight.simps [simp del]

definition TrimSpace :: "string \<Rightarrow> string" where
  "TrimSpace s = TrimRight (TrimLeft s)"

subsection \<open>encoding/hex and bson.ObjectId\<close>

text \<open>
  \<open>bson.ObjectId\<close> is a Go string type holding the twelve raw bytes of the identifier.
\<close>

type_synonym ObjectId = string

definition fromHexChar :: "char \<Rightarrow> nat option" where
  "fromHexChar c =
     (let n = (of_char c :: nat) in
      if 48 \<le> n \<and> n \<le> 57 then Some (n - 48)
      else if 97 \<le> n \<and> n \<le> 102 then Some (n - 97 + 10)
      else if 65 \<le> n \<and> n \<le> 70 then Some (n - 65 + 10)
      else None)"

text \<open>\<open>hex.DecodeString\<close>: \<open>None\<close> is its error (odd length, or a byte that is no
  hexadecimal digit).\<close>

fun DecodeString :: "string \<Rightarrow> string option" where
  "DecodeString [] = Some []"
| "DecodeString [c] = None"
| "DecodeString (a # b # cs) =
     (case fromHexChar a of
        None \<Rightarrow> None
      | Some x \<Rightarrow>
         (case fromHexChar b of
            None \<Rightarrow> None
          | Some y \<Rightarrow>
             (case DecodeString cs of
                None \<Rightarrow> None
              | Some d \<Rightarrow> Some (char_of (x * 16 + y) # d))))"

definition hextable :: string where
  "hextable = ''0123456789abcdef''"

definition EncodeToString :: "string \<Rightarrow> string" where
  "EncodeToString src =
     concat (map (\<lambda>v. [hextable ! ((of_char v :: nat) div 16),
                        hextable ! ((of_char v :: nat) mod 16)]) src)"

definition IsObjectIdHex :: "string \<Rightarrow> bool" where
  "IsObjectIdHex s = (if length s \<noteq> 24 then False else DecodeString s \<noteq> None)"

text \<open>\<open>bson.ObjectIdHex\<close> panics on a string that is no identifier in hex form:
  \<open>None\<close> is the panic.\<close>

definition ObjectIdHex :: "string \<Rightarrow> ObjectId option" where
  "ObjectIdHex s =
     (case DecodeString s of
        None \<Rightarrow> None
      | Some d \<Rightarrow> if length d \<noteq> 12 then None else Some d)"

definition Hex :: "ObjectId \<Rightarrow> string" where
  "Hex oid = EncodeToString oid"

section \<open>The data model\<close>

text \<open>
  The two structs of the program (the same in both source files, up to the name under
  which \<open>CreatedAt\<close> is stored): \<open>todoModel\<close> is the form kept in the store,
  \<open>todo\<close> the form exchanged with the client.
\<close>

record todoModel =
  ID :: ObjectId
  Title :: string
  Completed :: bool
  CreatedAt :: time

record todo =
  ID :: string
  Title :: string
  Completed :: bool
  CreatedAt :: time

datatype error = ErrNotFound | DuplicateKey | Unreachable | DecodeError string

subsection \<open>Documents\<close>

text \<open>
  A document of the store, and a \<open>bson.M\<close> literal of the program, is a list of named
  values. The values are the four kinds the program stores.
\<close>

datatype bval = VObjectId ObjectId | VString string | VBool bool | VTime time

type_synonym M = "(string \<times> bval) list"

text \<open>
  What \<open>Insert(&tm)\<close> writes for a \<open>todoModel\<close>, following the struct tags: \<open>_id\<close>
  carries \<open>omitempty\<close>, so an empty identifier is left out. The tag of \<open>CreatedAt\<close>
  is \<open>createdAt\<close> in src/main.go and \<open>created_at\<close> in src/unnamed/part_000.
\<close>

definition marshal :: "string \<Rightarrow> todoModel \<Rightarrow> M" where
  "marshal createdAtTag tm =
     (if todoModel.ID tm = [] then [] else [(''_id'', VObjectId (todoModel.ID tm))])
     @ [(''title'', VString (todoModel.Title tm)),
        (''completed'', VBool (todoModel.Completed tm)),
        (createdAtTag, VTime (todoModel.CreatedAt tm))]"

text \<open>
  What \<open>All(&todos)\<close> reads from a document into a fresh \<open>todoModel\<close>. The decoder
  of mgo goes through the elements of the document in their order and sets, for each, the
  field whose tag is the element's name; an element of no field is dropped. A field of a
  Go string type (\<open>ID\<close>, a \<open>bson.ObjectId\<close>, and \<open>Title\<close>) takes a BSON string and a
  BSON object id alike, as the bytes they hold; \<open>Completed\<close> takes a boolean and
  \<open>CreatedAt\<close> a date. An element whose value the field cannot take is skipped and leaves
  the field as it is. A field no element sets keeps its zero value.
\<close>

definition zeroTodoModel :: todoModel where
  "zeroTodoModel =
     \<lparr>todoModel.ID = [], todoModel.Title = [],
      todoModel.Completed = False, todoModel.CreatedAt = zeroTime\<rparr>"

definition readElem :: "string \<Rightarrow> todoModel \<Rightarrow> string \<times> bval \<Rightarrow> todoModel" where
  "readElem createdAtTag tm kv =
     (case kv of (name, v) \<Rightarrow>
        if name = ''_id'' then
          (case v of VObjectId i \<Rightarrow> tm\<lparr>todoModel.ID := i\<rparr>
                   | VString s \<Rightarrow> tm\<lparr>todoModel.ID := s\<rparr>
                   | _ \<Rightarrow> tm)
        else if name = ''title'' then
          (case v of VString s \<Rightarrow> tm\<lparr>todoModel.Title := s\<rparr>
                   | VObjectId i \<Rightarrow> tm\<lparr>todoModel.Title := i\<rparr>
                   | _ \<Rightarrow> tm)
        else if name = ''completed'' then
          (case v of VBool b \<Rightarrow> tm\<lparr>todoModel.Completed := b\<rparr> | _ \<Rightarrow> tm)
        else if name = createdAtTag then
          (case v of VTime t \<Rightarrow> tm\<lparr>todoModel.CreatedAt := t\<rparr> | _ \<Rightarrow> tm)
        else tm)"

definition unmarshal :: "string \<Rightarrow> M \<Rightarrow> todoModel" where
  "unmarshal createdAtTag d = foldl (readElem createdAtTag) zeroTodoModel d"

section \<open>The persistence collaborator\<close>

text \<open>
  The collection \<open>todo\<close> of the database, as the mgo driver and the MongoDB server
  present it to the handlers: the documents in storage order, whether the server can be
  reached, and the trace of the calls made on the collection. The session is in mgo's
  default safe mode (\<open>mgo.Dial\<close>; \<open>SetMode\<close> does not change it), so \<open>Update\<close>
  and \<open>RemoveId\<close> return \<open>ErrNotFound\<close> when no document matches.
\<close>

datatype call = FindCall M | InsertCall M | UpdateCall M M | RemoveIdCall ObjectId

record database =
  docs :: "M list"
  online :: bool
  calls :: "call list"

definition matches :: "M \<Rightarrow> M \<Rightarrow> bool" where
  "matches selector d = list_all (\<lambda>(k, v). map_of d k = Some v) selector"

definition hasId :: "ObjectId \<Rightarrow> M \<Rightarrow> bool" where
  "hasId oid d = (map_of d ''_id'' = Some (VObjectId oid))"

fun replaceFirst :: "(M \<Rightarrow> bool) \<Rightarrow> (M \<Rightarrow> M) \<Rightarrow> M list \<Rightarrow> M list option" where
  "replaceFirst P f [] = None"
| "replaceFirst P f (d # ds) =
     (if P d then Some (f d # ds)
      else (case replaceFirst P f ds of None \<Rightarrow> None | Some ds' \<Rightarrow> Some (d # ds')))"

fun removeFirst :: "(M \<Rightarrow> bool) \<Rightarrow> M list \<Rightarrow> M list option" where
  "removeFirst P [] = None"
| "removeFirst P (d # ds) =
     (if P d then Some ds
      else (case removeFirst P ds of None \<Rightarrow> None | Some ds' \<Rightarrow> Some (d # ds')))"

text \<open>\<open>Find(selector).All\<close>: every matching document, in storage order.\<close>

definition FindAll :: "M \<Rightarrow> database \<Rightarrow> (error + M list) \<times> database" where
  "FindAll selector db =
     (let db' = db\<lparr>calls := calls db @ [FindCall selector]\<rparr> in
      if \<not> online db then (Inl Unreachable, db')
      else (Inr (filter (matches selector) (docs db)), db'))"

text \<open>
  \<open>Insert\<close>: the server keeps \<open>_id\<close> unique and refuses a document whose identifier is
  already stored. (A document without \<open>_id\<close> would be given one by the server; the
  model keeps it as it is. \<open>createTodo\<close> inserts none: \<open>bson.NewObjectId\<close> returns
  twelve bytes.)
\<close>

definition Insert :: "M \<Rightarrow> database \<Rightarrow> error option \<times> database" where
  "Insert d db =
     (let db' = db\<lparr>calls := calls db @ [InsertCall d]\<rparr> in
      if \<not> online db then (Some Unreachable, db')
      else (case map_of d ''_id'' of
              None \<Rightarrow> (None, db'\<lparr>docs := docs db @ [d]\<rparr>)
            | Some i \<Rightarrow>
                if list_ex (\<lambda>d'. map_of d' ''_id'' = Some i) (docs db)
                then (Some DuplicateKey, db')
                else (None, db'\<lparr>docs := docs db @ [d]\<rparr>)))"

text \<open>
  \<open>Update(selector, update)\<close> with an update document that holds plain fields and no
  update operator (no key starting with \<open>$\<close>, such as \<open>$set\<close>), which is the only
  form the program passes: MongoDB then takes \<open>update\<close> as a replacement document. The
  first document matching the selector is replaced by the fields of \<open>update\<close>; of the
  old document only \<open>_id\<close> is kept.
\<close>

definition replacement :: "M \<Rightarrow> M \<Rightarrow> M" where
  "replacement update d =
     (case map_of d ''_id'' of None \<Rightarrow> update | Some i \<Rightarrow> (''_id'', i) # update)"

definition Update :: "M \<Rightarrow> M \<Rightarrow> database \<Rightarrow> error option \<times> database" where
  "Update selector update db =
     (let db' = db\<lparr>calls := calls db @ [UpdateCall selector update]\<rparr> in
      if \<not> online db then (Some Unreachable, db')
      else (case replaceFirst (matches selector) (replacement update) (docs db) of
              None \<Rightarrow> (Some ErrNotFound, db')
            | Some ds \<Rightarrow> (None, db'\<lparr>docs := ds\<rparr>)))"

text \<open>\<open>RemoveId(id)\<close>: removes the first (the only) document with this \<open>_id\<close>.\<close>

definition RemoveId :: "ObjectId \<Rightarrow> database \<Rightarrow> error option \<times> database" where
  "RemoveId oid db =
     (let db' = db\<lparr>calls := calls db @ [RemoveIdCall oid]\<rparr> in
      if \<not> online db then (Some Unreachable, db')
      else (case removeFirst (hasId oid) (docs db) of
              None \<Rightarrow> (Some ErrNotFound, db')
            | Some ds \<Rightarrow> (None, db'\<lparr>docs := ds\<rparr>)))"

section \<open>Requests and responses\<close>

text \<open>
  Of a request the handlers read the URL parameter \<open>id\<close> (\<open>chi.URLParam(r, "id")\<close>) and
  the body. \<open>Body\<close> is what \<open>json.NewDecoder(r.Body).Decode(&t)\<close> yields on it: the
  error, or the decoded \<open>todo\<close> (a key the body does not give leaves its field zero).
  The environment gives the two values a handler draws from outside: \<open>time.Now()\<close> and
  \<open>bson.NewObjectId()\<close>.
\<close>

record request =
  URLParam_id :: string
  Body :: "error + todo"

record env =
  Now :: time
  NewObjectId :: ObjectId

text \<open>
  What \<open>rnd.JSON(w, status, v)\<close> writes: the status and the value, which is a
  \<open>renderer.M\<close> or an error.
\<close>

datatype jval = JString string | JError error | JTodos "todo list"

datatype payload = RendererM "(string \<times> jval) list" | ErrorValue error

record response =
  status :: nat
  body :: payload

definition StatusProcessing :: nat where "StatusProcessing = 102"
definition StatusOK :: nat where "StatusOK = 200"
definition StatusCreated :: nat where "StatusCreated = 201"
definition StatusBadRequest :: nat where "StatusBadRequest = 400"

text \<open>A handler returns what it wrote (\<open>None\<close> when it returns without writing) and
  the database it leaves.\<close>

definition JSON :: "nat \<Rightarrow> payload \<Rightarrow> response option" where
  "JSON st v = Some \<lparr>status = st, body = v\<rparr>"

section \<open>The handlers\<close>

text \<open>
  The repository holds the program twice, in src/main.go and in src/unnamed/part_000.
  The two files have the same functions; they differ in the messages, in the tag of
  \<open>CreatedAt\<close>, and in \<open>updateTodo\<close>, which in src/main.go ends after a successful
  \<open>Update\<close> without writing anything and reports a failed one without the \<open>error\<close>
  key. Each function is modelled once per file, with the suffix \<open>_main\<close> or
  \<open>_part\<close>.
\<close>

datatype route = GET_root | POST_root | PUT_id | DELETE_id

subsection \<open>The handlers of src/main.go\<close>

definition fetchTodos_main :: "request \<Rightarrow> env \<Rightarrow> database \<Rightarrow> response option \<times> database" where
  "fetchTodos_main r e db =
     (case FindAll [] db of
        (Inl err, db') \<Rightarrow>
          (JSON StatusProcessing
             (RendererM [(''message'', JString ''Failed to fetch todo''),
                         (''error'', JError err)]), db')
      | (Inr todos, db') \<Rightarrow>
          (let todoList =
                 map (\<lambda>t. \<lparr>todo.ID = Hex (todoModel.ID t),
                            todo.Title = todoModel.Title t,
                            todo.Completed = todoModel.Completed t,
                            todo.CreatedAt = todoModel.CreatedAt t\<rparr>)
                     (map (unmarshal ''createdAt'') todos)
           in (JSON StatusOK (RendererM [(''data'', JTodos todoList)]), db')))"

definition createTodo_main :: "request \<Rightarrow> env \<Rightarrow> database \<Rightarrow> response option \<times> database" where
  "createTodo_main r e db =
     (case Body r of
        Inl err \<Rightarrow> (JSON StatusProcessing (ErrorValue err), db)
      | Inr t \<Rightarrow>
          if todo.Title t = [] then
            (JSON StatusBadRequest
               (RendererM [(''message'', JString ''The title is required'')]), db)
          else
            (let tm = \<lparr>todoModel.ID = NewObjectId e,
                       todoModel.Title = todo.Title t,
                       todoModel.Completed = False,
                       todoModel.CreatedAt = Now e\<rparr>
             in case Insert (marshal ''createdAt'' tm) db of
                  (Some err, db') \<Rightarrow>
                    (JSON StatusProcessing
                       (RendererM [(''message'', JString ''Failed to save todo''),
                                   (''error'', JError err)]), db')
                | (None, db') \<Rightarrow>
                    (JSON StatusCreated
                       (RendererM [(''message'', JString ''Todo created successfully''),
                                   (''todo_id'', JString (Hex (todoModel.ID tm)))]), db')))"

text \<open>\<open>bson.ObjectIdHex(id)\<close> is evaluated where the store is called; its panic would
  end the handler with nothing written.\<close>

definition deleteTodo_main :: "request \<Rightarrow> env \<Rightarrow> database \<Rightarrow> response option \<times> database" where
  "deleteTodo_main r e db =
     (let id = TrimSpace (URLParam_id r) in
      if \<not> IsObjectIdHex id then
        (JSON StatusBadRequest (RendererM [(''message'', JString ''The ID is invalid'')]), db)
      else
        (case ObjectIdHex id of
           None \<Rightarrow> (None, db)
         | Some oid \<Rightarrow>
            (case RemoveId oid db of
               (Some err, db') \<Rightarrow>
                 (JSON StatusProcessing
                    (RendererM [(''message'', JString ''Failed to delete todo''),
                                (''error'', JError err)]), db')
             | (None, db') \<Rightarrow>
                 (JSON StatusOK
                    (RendererM [(''message'', JString ''Todo deleted successfully'')]), db'))))"

definition updateTodo_main :: "request \<Rightarrow> env \<Rightarrow> database \<Rightarrow> response option \<times> database" where
  "updateTodo_main r e db =
     (let id = TrimSpace (URLParam_id r) in
      if \<not> IsObjectIdHex id then
        (JSON StatusBadRequest (RendererM [(''message'', JString ''The ID is invalid'')]), db)
      else
        (case Body r of
           Inl err \<Rightarrow> (JSON StatusProcessing (ErrorValue err), db)
         | Inr t \<Rightarrow>
             if todo.Title t = [] then
               (JSON StatusBadRequest
                  (RendererM [(''message'', JString ''The Title field is required'')]), db)
             else
               (case ObjectIdHex id of
                  None \<Rightarrow> (None, db)
                | Some oid \<Rightarrow>
                   (case Update [(''_id'', VObjectId oid)]
                                [(''title'', VString (todo.Title t)),
                                 (''completed'', VBool (todo.Completed t))] db of
                      (Some err, db') \<Rightarrow>
                        (JSON StatusProcessing
                           (RendererM [(''message'', JString ''Failed to update todo'')]), db')
                    | (None, db') \<Rightarrow>
                        (None, db')))))"

text \<open>The routes of \<open>todoHandlers\<close>.\<close>

definition todoHandlers_main ::
  "route \<Rightarrow> request \<Rightarrow> env \<Rightarrow> database \<Rightarrow> response option \<times> database" where
  "todoHandlers_main rt =
     (case rt of
        GET_root \<Rightarrow> fetchTodos_main
      | POST_root \<Rightarrow> createTodo_main
      | PUT_id \<Rightarrow> updateTodo_main
      | DELETE_id \<Rightarrow> deleteTodo_main)"

subsection \<open>The handlers of src/unnamed/part_000\<close>

definition fetchTodos_part :: "request \<Rightarrow> env \<Rightarrow> database \<Rightarrow> response option \<times> database" where
  "fetchTodos_part r e db =
     (case FindAll [] db of
        (Inl err, db') \<Rightarrow>
          (JSON StatusProcessing
             (RendererM [(''message'', JString ''Failed to fetch todo''),
                         (''error'', JError err)]), db')
      | (Inr todos, db') \<Rightarrow>
          (let todoList =
                 map (\<lambda>t. \<lparr>todo.ID = Hex (todoModel.ID t),
                            todo.Title = todoModel.Title t,
                            todo.Completed = todoModel.Completed t,
                            todo.CreatedAt = todoModel.CreatedAt t\<rparr>)
                     (map (unmarshal ''created_at'') todos)
           in (JSON StatusOK (RendererM [(''data'', JTodos todoList)]), db')))"

definition createTodo_part :: "request \<Rightarrow> env \<Rightarrow> database \<Rightarrow> response option \<times> database" where
  "createTodo_part r e db =
     (case Body r of
        Inl err \<Rightarrow> (JSON StatusProcessing (ErrorValue err), db)
      | Inr t \<Rightarrow>
          if todo.Title t = [] then
            (JSON StatusBadRequest
               (RendererM [(''message'', JString ''The title field is important'')]), db)
          else
            (let tm = \<lparr>todoModel.ID = NewObjectId e,
                       todoModel.Title = todo.Title t,
                       todoModel.Completed = False,
                       todoModel.CreatedAt = Now e\<rparr>
             in case Insert (marshal ''created_at'' tm) db of
                  (Some err, db') \<Rightarrow>
                    (JSON StatusProcessing
                       (RendererM [(''message'', JString ''Failed to save todo''),
                                   (''error'', JError err)]), db')
                | (None, db') \<Rightarrow>
                    (JSON StatusCreated
                       (RendererM [(''message'', JString ''Todo created successfully''),
                                   (''todo_id'', JString (Hex (todoModel.ID tm)))]), db')))"

text \<open>\<open>bson.ObjectIdHex(id)\<close> is evaluated where the store is called; its panic would
  end the handler with nothing written.\<close>

definition deleteTodo_part :: "request \<Rightarrow> env \<Rightarrow> database \<Rightarrow> response option \<times> database" where
  "deleteTodo_part r e db =
     (let id = TrimSpace (URLParam_id r) in
      if \<not> IsObjectIdHex id then
        (JSON StatusBadRequest (RendererM [(''message'', JString ''The id is invalid'')]), db)
      else
        (case ObjectIdHex id of
           None \<Rightarrow> (None, db)
         | Some oid \<Rightarrow>
            (case RemoveId oid db of
               (Some err, db') \<Rightarrow>
                 (JSON StatusProcessing
                    (RendererM [(''message'', JString ''Failed to delete todo''),
                                (''error'', JError err)]), db')
             | (None, db') \<Rightarrow>
                 (JSON StatusOK
                    (RendererM [(''message'', JString ''Todo deleted successfully'')]), db'))))"

definition updateTodo_part :: "request \<Rightarrow> env \<Rightarrow> database \<Rightarrow> response option \<times> database" where
  "updateTodo_part r e db =
     (let id = TrimSpace (URLParam_id r) in
      if \<not> IsObjectIdHex id then
        (JSON StatusBadRequest (RendererM [(''message'', JString ''The id is invalid'')]), db)
      else
        (case Body r of
           Inl err \<Rightarrow> (JSON StatusProcessing (ErrorValue err), db)
         | Inr t \<Rightarrow>
             if todo.Title t = [] then
               (JSON StatusBadRequest
                  (RendererM [(''message'', JString ''The title field is required'')]), db)
             else
               (case ObjectIdHex id of
                  None \<Rightarrow> (None, db)
                | Some oid \<Rightarrow>
                   (case Update [(''_id'', VObjectId oid)]
                                [(''title'', VString (todo.Title t)),
                                 (''completed'', VBool (todo.Completed t))] db of
                      (Some err, db') \<Rightarrow>
                        (JSON StatusProcessing
                           (RendererM [(''message'', JString ''Failed to update todo''),
                                       (''error'', JError err)]), db')
                    | (None, db') \<Rightarrow>
                        (JSON StatusOK
                           (RendererM [(''message'', JString ''Todo updated successfully'')]), db')))))"

text \<open>The routes of \<open>todoHandlers\<close>.\<close>

definition todoHandlers_part ::
  "route \<Rightarrow> request \<Rightarrow> env \<Rightarrow> database \<Rightarrow> response option \<times> database" where
  "todoHandlers_part rt =
     (case rt of
        GET_root \<Rightarrow> fetchTodos_part
      | POST_root \<Rightarrow> createTodo_part
      | PUT_id \<Rightarrow> updateTodo_part
      | DELETE_id \<Rightarrow> deleteTodo_part)"

section \<open>Serving requests, and a property of the collection\<close>

text \<open>The server answers one request after the other; \<open>serve\<close> gives the database
  left by a sequence of requests, each with its route and the values of its environment.\<close>

fun serve_main :: "(route \<times> request \<times> env) list \<Rightarrow> database \<Rightarrow> database" where
  "serve_main [] db = db"
| "serve_main ((rt, r, e) # rest) db = serve_main rest (snd (todoHandlers_main rt r e db))"

fun serve_part :: "(route \<times> request \<times> env) list \<Rightarrow> database \<Rightarrow> database" where
  "serve_part [] db = db"
| "serve_part ((rt, r, e) # rest) db = serve_part rest (snd (todoHandlers_part rt r e db))"

text \<open>A stored document has a non-empty title when \<open>title\<close> holds a string that is
  not empty; \<open>allTitled\<close> says so of every document of the collection.\<close>

definition titled :: "M \<Rightarrow> bool" where
  "titled d = (case map_of d ''title'' of Some (VString s) \<Rightarrow> s \<noteq> [] | _ \<Rightarrow> False)"

definition allTitled :: "database \<Rightarrow> bool" where
  "allTitled db = list_all titled (docs db)"

section \<open>Auxiliary facts\<close>

subsection \<open>Identifiers in hex form and white space\<close>

lemma DecodeString_length: "DecodeString s = Some d \<Longrightarrow> length s = 2 * length d"
  by (induction s arbitrary: d rule: DecodeString.induct) (auto split: option.splits)

lemma IsObjectIdHex_ObjectIdHex:
  assumes "IsObjectIdHex s"
  shows "\<exists>oid. ObjectIdHex s = Some oid \<and> length oid = 12"
proof -
  from assms have len: "length s = 24" and "DecodeString s \<noteq> None"
    by (auto simp: IsObjectIdHex_def split: if_splits)
  then obtain d where d: "DecodeString s = Some d" by auto
  with len have "length d = 12" by (auto dest: DecodeString_length)
  with d show ?thesis by (simp add: ObjectIdHex_def)
qed

lemma DecodeString_hd: "DecodeString (c # cs) = Some d \<Longrightarrow> fromHexChar c \<noteq> None"
  by (cases cs) (auto split: option.splits)

lemma DecodeString_last: "DecodeString s = Some d \<Longrightarrow> s \<noteq> [] \<Longrightarrow> fromHexChar (last s) \<noteq> None"
  by (induction s arbitrary: d rule: DecodeString.induct) (auto split: option.splits)

lemma spaceRunes_no_hexdigit:
  "list_all (\<lambda>p. p \<noteq> [] \<and> fromHexChar (hd p) = None \<and> fromHexChar (last p) = None) spaceRunes"
  by code_simp

lemma spaceRune_ends:
  assumes "p \<in> set spaceRunes"
  shows "p \<noteq> []" and "fromHexChar (hd p) = None" and "fromHexChar (last p) = None"
  using assms spaceRunes_no_hexdigit by (auto simp: list_all_iff)

lemma hexdigit_leadingSpace:
  assumes "fromHexChar c \<noteq> None"
  shows "leadingSpace (c # cs) = 0"
proof -
  have "take (length p) (c # cs) \<noteq> p" if "p \<in> set spaceRunes" for p
  proof
    assume t: "take (length p) (c # cs) = p"
    from that have ne: "p \<noteq> []" by (rule spaceRune_ends)
    then obtain x xs where p: "p = x # xs" by (cases p) auto
    with t have "x = c" by simp
    with p have "hd p = c" by simp
    with that assms show False by (auto dest: spaceRune_ends(2))
  qed
  then have "find (\<lambda>p. take (length p) (c # cs) = p) spaceRunes = None"
    by (auto simp: find_None_iff)
  then show ?thesis by (simp add: leadingSpace_def)
qed

lemma trailing_last:
  assumes "drop (length s - length p) s = p" and "p \<noteq> []"
  shows "last s = last p"
proof -
  from assms have "length s - length p < length s"
    by (metis drop_all leI)
  then have "last (drop (length s - length p) s) = last s" by (rule last_drop)
  with assms show ?thesis by simp
qed

lemma hexdigit_trailingSpace:
  assumes "fromHexChar (last s) \<noteq> None"
  shows "trailingSpace s = 0"
proof -
  have "drop (length s - length p) s \<noteq> p" if "p \<in> set spaceRunes" for p
  proof
    assume d: "drop (length s - length p) s = p"
    from that have "p \<noteq> []" by (rule spaceRune_ends)
    with d have "last s = last p" by (rule trailing_last)
    with that assms show False by (auto dest: spaceRune_ends(3))
  qed
  then have "find (\<lambda>p. drop (length s - length p) s = p) spaceRunes = None"
    by (auto simp: find_None_iff)
  then show ?thesis by (simp add: trailingSpace_def)
qed

lemma TrimSpace_hex:
  assumes "IsObjectIdHex s"
  shows "TrimSpace s = s"
proof -
  from assms have len: "length s = 24" and "DecodeString s \<noteq> None"
    by (auto simp: IsObjectIdHex_def split: if_splits)
  then obtain d where d: "DecodeString s = Some d" by auto
  from len obtain c cs where s: "s = c # cs" by (cases s) auto
  with d have "fromHexChar c \<noteq> None" by (auto dest: DecodeString_hd)
  then have l: "leadingSpace s = 0" unfolding s by (rule hexdigit_leadingSpace)
  from d s have "fromHexChar (last s) \<noteq> None" by (auto dest: DecodeString_last)
  then have t: "trailingSpace s = 0" by (rule hexdigit_trailingSpace)
  from l t show ?thesis by (simp add: TrimSpace_def TrimLeft.simps TrimRight.simps)
qed

subsection \<open>The store\<close>

lemmas status_defs = JSON_def StatusProcessing_def StatusOK_def StatusCreated_def StatusBadRequest_def

lemma removeFirst_None: "removeFirst P ds = None \<longleftrightarrow> \<not> list_ex P ds"
  by (induction ds) (auto split: option.splits)

lemma removeFirst_Some:
  "removeFirst P ds = Some ds' \<Longrightarrow>
     \<exists>xs d ys. ds = xs @ d # ys \<and> P d \<and> \<not> list_ex P xs \<and> ds' = xs @ ys"
proof (induction ds arbitrary: ds')
  case Nil
  then show ?case by simp
next
  case (Cons a ds)
  show ?case
  proof (cases "P a")
    case True
    with Cons.prems have "ds' = ds" by simp
    with True have "a # ds = [] @ a # ds \<and> P a \<and> \<not> list_ex P [] \<and> ds' = [] @ ds" by simp
    then show ?thesis by blast
  next
    case False
    with Cons.prems obtain r where r: "removeFirst P ds = Some r" and ds': "ds' = a # r"
      by (auto split: option.splits)
    from Cons.IH [OF r] obtain xs d ys
      where "ds = xs @ d # ys" "P d" "\<not> list_ex P xs" "r = xs @ ys" by blast
    with False ds' have "a # ds = (a # xs) @ d # ys \<and> P d \<and> \<not> list_ex P (a # xs) \<and> ds' = (a # xs) @ ys"
      by simp
    then show ?thesis by blast
  qed
qed

lemma replaceFirst_None: "replaceFirst P f ds = None \<longleftrightarrow> \<not> list_ex P ds"
  by (induction ds) (auto split: option.splits)

lemma replaceFirst_Some:
  "replaceFirst P f ds = Some ds' \<Longrightarrow>
     \<exists>xs d ys. ds = xs @ d # ys \<and> P d \<and> \<not> list_ex P xs \<and> ds' = xs @ f d # ys"
proof (induction ds arbitrary: ds')
  case Nil
  then show ?case by simp
next
  case (Cons a ds)
  show ?case
  proof (cases "P a")
    case True
    with Cons.prems have "ds' = f a # ds" by simp
    with True have "a # ds = [] @ a # ds \<and> P a \<and> \<not> list_ex P [] \<and> ds' = [] @ f a # ds" by simp
    then show ?thesis by blast
  next
    case False
    with Cons.prems obtain r where r: "replaceFirst P f ds = Some r" and ds': "ds' = a # r"
      by (auto split: option.splits)
    from Cons.IH [OF r] obtain xs d ys
      where "ds = xs @ d # ys" "P d" "\<not> list_ex P xs" "r = xs @ f d # ys" by blast
    with False ds' have "a # ds = (a # xs) @ d # ys \<and> P d \<and> \<not> list_ex P (a # xs) \<and> ds' = (a # xs) @ f d # ys"
      by simp
    then show ?thesis by blast
  qed
qed

lemma replaceFirst_at:
  "\<not> list_ex P xs \<Longrightarrow> P d \<Longrightarrow> replaceFirst P f (xs @ d # ys) = Some (xs @ f d # ys)"
  by (induction xs) auto

lemma matches_id: "matches [(''_id'', VObjectId oid)] d = hasId oid d"
  by (simp add: matches_def hasId_def)

lemma hasId_replacement: "hasId oid d \<Longrightarrow> replacement u d = (''_id'', VObjectId oid) # u"
  by (simp add: hasId_def replacement_def)


subsection \<open>Identifiers padded with ASCII white space\<close>

lemma asciiSpace_spaceRune: "asciiSpace c \<Longrightarrow> [c] \<in> set spaceRunes"
  unfolding asciiSpace_def spaceRunes_def by (elim disjE) simp_all

lemma spaceRunes_ascii_single:
  "list_all (\<lambda>p. (asciiSpace (hd p) \<or> asciiSpace (last p)) \<longrightarrow> length p = 1) spaceRunes"
  by code_simp

lemma asciiSpace_leadingSpace:
  assumes "asciiSpace c"
  shows "leadingSpace (c # s) = 1"
proof -
  from assms have "[c] \<in> set spaceRunes" by (rule asciiSpace_spaceRune)
  moreover have "take (length [c]) (c # s) = [c]" by simp
  ultimately have "find (\<lambda>p. take (length p) (c # s) = p) spaceRunes \<noteq> None"
    unfolding find_None_iff by blast
  then obtain p where p: "find (\<lambda>p. take (length p) (c # s) = p) spaceRunes = Some p" by auto
  then have t: "take (length p) (c # s) = p" and mem: "p \<in> set spaceRunes"
    by (auto simp: find_Some_iff)
  from mem have "p \<noteq> []" by (rule spaceRune_ends)
  with t have "hd p = c" by (cases p) auto
  with assms mem spaceRunes_ascii_single have "length p = 1" by (auto simp: list_all_iff)
  with p show ?thesis by (simp add: leadingSpace_def)
qed

lemma asciiSpace_trailingSpace:
  assumes "asciiSpace c"
  shows "trailingSpace (s @ [c]) = 1"
proof -
  from assms have "[c] \<in> set spaceRunes" by (rule asciiSpace_spaceRune)
  moreover have "drop (length (s @ [c]) - length [c]) (s @ [c]) = [c]" by simp
  ultimately have "find (\<lambda>p. drop (length (s @ [c]) - length p) (s @ [c]) = p) spaceRunes \<noteq> None"
    unfolding find_None_iff by blast
  then obtain p
    where p: "find (\<lambda>p. drop (length (s @ [c]) - length p) (s @ [c]) = p) spaceRunes = Some p"
    by auto
  then have t: "drop (length (s @ [c]) - length p) (s @ [c]) = p" and mem: "p \<in> set spaceRunes"
    by (auto simp: find_Some_iff)
  from mem have "p \<noteq> []" by (rule spaceRune_ends)
  with t have "last (s @ [c]) = last p" by (rule trailing_last)
  then have "last p = c" by simp
  with assms mem spaceRunes_ascii_single have "length p = 1" by (auto simp: list_all_iff)
  with p show ?thesis by (simp add: trailingSpace_def)
qed

lemma TrimLeft_ascii: "list_all asciiSpace l \<Longrightarrow> TrimLeft (l @ s) = TrimLeft s"
proof (induction l)
  case Nil
  then show ?case by simp
next
  case (Cons c l)
  then have "leadingSpace (c # l @ s) = 1" by (simp add: asciiSpace_leadingSpace)
  then have "TrimLeft ((c # l) @ s) = TrimLeft (l @ s)"
    by (subst TrimLeft.simps) simp
  with Cons show ?case by simp
qed

lemma TrimRight_ascii: "list_all asciiSpace t \<Longrightarrow> TrimRight (s @ t) = TrimRight s"
proof (induction t rule: rev_induct)
  case Nil
  then show ?case by simp
next
  case (snoc c t)
  then have "asciiSpace c" by simp
  then have "trailingSpace ((s @ t) @ [c]) = 1" by (rule asciiSpace_trailingSpace)
  then have "TrimRight ((s @ t) @ [c]) = TrimRight (s @ t)"
    by (subst TrimRight.simps) simp
  with snoc show ?case by simp
qed

lemma TrimSpace_padded:
  assumes "IsObjectIdHex h" and "list_all asciiSpace l" and "list_all asciiSpace t"
  shows "TrimSpace (l @ h @ t) = h"
proof -
  from assms(1) have len: "length h = 24" and "DecodeString h \<noteq> None"
    by (auto simp: IsObjectIdHex_def split: if_splits)
  then obtain d where d: "DecodeString h = Some d" by auto
  from len obtain c cs where h: "h = c # cs" by (cases h) auto
  with d have "fromHexChar c \<noteq> None" by (auto dest: DecodeString_hd)
  then have "leadingSpace (c # cs @ t) = 0" by (rule hexdigit_leadingSpace)
  then have left: "TrimLeft (h @ t) = h @ t" unfolding h by (subst TrimLeft.simps) simp
  from d h have "fromHexChar (last h) \<noteq> None" by (auto dest: DecodeString_last)
  then have "trailingSpace h = 0" by (rule hexdigit_trailingSpace)
  then have right: "TrimRight h = h" by (subst TrimRight.simps) simp
  have "TrimSpace (l @ h @ t) = TrimRight (TrimLeft (h @ t))"
    using assms(2) by (simp add: TrimSpace_def TrimLeft_ascii)
  also have "\<dots> = TrimRight h" using assms(3) by (simp add: left TrimRight_ascii)
  finally show ?thesis using right by simp
qed

subsection \<open>The handlers keep titles non-empty\<close>

lemma removeFirst_list_all:
  "removeFirst P ds = Some ds' \<Longrightarrow> list_all Q ds \<Longrightarrow> list_all Q ds'"
  by (induction ds arbitrary: ds') (auto split: if_splits option.splits)

lemma replaceFirst_list_all:
  "replaceFirst P f ds = Some ds' \<Longrightarrow> list_all Q ds \<Longrightarrow> (\<And>d. Q (f d)) \<Longrightarrow> list_all Q ds'"
  by (induction ds arbitrary: ds') (auto split: if_splits option.splits)

lemma titled_replacement:
  "s \<noteq> [] \<Longrightarrow> titled (replacement [(''title'', VString s), (''completed'', VBool b)] d)"
  by (simp add: titled_def replacement_def split: option.splits)

lemma titled_marshal:
  "todoModel.Title tm \<noteq> [] \<Longrightarrow> titled (marshal tag tm)"
  by (simp add: titled_def marshal_def)

lemma FindAll_docs: "docs (snd (FindAll sel db)) = docs db"
  by (simp add: FindAll_def Let_def)

lemma Insert_allTitled:
  "Insert d db = (x, db') \<Longrightarrow> allTitled db \<Longrightarrow> titled d \<Longrightarrow> allTitled db'"
  by (auto simp: Insert_def Let_def allTitled_def split: option.splits if_splits)

lemma Update_allTitled:
  "Update sel [(''title'', VString s), (''completed'', VBool b)] db = (x, db') \<Longrightarrow>
   allTitled db \<Longrightarrow> s \<noteq> [] \<Longrightarrow> allTitled db'"
  by (auto simp: Update_def Let_def allTitled_def titled_replacement
           split: option.splits if_splits dest: replaceFirst_list_all)

lemma RemoveId_allTitled: "RemoveId oid db = (x, db') \<Longrightarrow> allTitled db \<Longrightarrow> allTitled db'"
  by (auto simp: RemoveId_def Let_def allTitled_def
           split: option.splits if_splits dest: removeFirst_list_all)

lemma fetchTodos_allTitled:
  "allTitled db \<Longrightarrow> allTitled (snd (fetchTodos_main r e db)) \<and> allTitled (snd (fetchTodos_part r e db))"
  by (simp add: fetchTodos_main_def fetchTodos_part_def FindAll_def Let_def allTitled_def)

lemma createTodo_allTitled:
  assumes "allTitled db"
  shows "allTitled (snd (createTodo_main r e db)) \<and> allTitled (snd (createTodo_part r e db))"
proof (cases "Body r")
  case (Inl err)
  with assms show ?thesis by (simp add: createTodo_main_def createTodo_part_def)
next
  case (Inr t)
  show ?thesis
  proof (cases "todo.Title t = []")
    case True
    with Inr assms show ?thesis by (simp add: createTodo_main_def createTodo_part_def)
  next
    case False
    then have t: "titled (marshal tag \<lparr>todoModel.ID = NewObjectId e, todoModel.Title = todo.Title t,
                 todoModel.Completed = False, todoModel.CreatedAt = Now e\<rparr>)" for tag
      by (simp add: titled_marshal)
    have m: "allTitled (snd (createTodo_main r e db))"
      using Inr False assms t [of "''createdAt''"]
      by (auto simp: createTodo_main_def Let_def split: prod.splits option.splits
               dest: Insert_allTitled)
    have p: "allTitled (snd (createTodo_part r e db))"
      using Inr False assms t [of "''created_at''"]
      by (auto simp: createTodo_part_def Let_def split: prod.splits option.splits
               dest: Insert_allTitled)
    from m p show ?thesis by simp
  qed
qed

lemma deleteTodo_allTitled:
  assumes "allTitled db"
  shows "allTitled (snd (deleteTodo_main r e db)) \<and> allTitled (snd (deleteTodo_part r e db))"
  using assms
  by (auto simp: deleteTodo_main_def deleteTodo_part_def Let_def
           split: prod.splits option.splits dest: RemoveId_allTitled)

lemma updateTodo_allTitled:
  assumes "allTitled db"
  shows "allTitled (snd (updateTodo_main r e db)) \<and> allTitled (snd (updateTodo_part r e db))"
proof (cases "Body r")
  case (Inl err)
  with assms show ?thesis by (simp add: updateTodo_main_def updateTodo_part_def Let_def)
next
  case (Inr t)
  show ?thesis
  proof (cases "todo.Title t = []")
    case True
    with Inr assms show ?thesis by (simp add: updateTodo_main_def updateTodo_part_def Let_def)
  next
    case False
    have m: "allTitled (snd (updateTodo_main r e db))"
      using Inr False assms
      by (auto simp: updateTodo_main_def Let_def split: prod.splits option.splits
               dest: Update_allTitled)
    have p: "allTitled (snd (updateTodo_part r e db))"
      using Inr False assms
      by (auto simp: updateTodo_part_def Let_def split: prod.splits option.splits
               dest: Update_allTitled)
    from m p show ?thesis by simp
  qed
qed

lemma todoHandlers_allTitled:
  assumes "allTitled db"
  shows "allTitled (snd (todoHandlers_main rt r e db)) \<and> allTitled (snd (todoHandlers_part rt r e db))"
  using fetchTodos_allTitled [OF assms] createTodo_allTitled [OF assms]
        updateTodo_allTitled [OF assms] deleteTodo_allTitled [OF assms]
  by (cases rt) (simp_all add: todoHandlers_main_def todoHandlers_part_def)

lemma serve_main_allTitled: "allTitled db \<Longrightarrow> allTitled (serve_main reqs db)"
  by (induction reqs db rule: serve_main.induct) (auto dest: todoHandlers_allTitled)

lemma serve_part_allTitled: "allTitled db \<Longrightarrow> allTitled (serve_part reqs db)"
  by (induction reqs db rule: serve_part.induct) (auto dest: todoHandlers_allTitled)

subsection \<open>Repeating an update\<close>

lemma replaceFirst_again:
  assumes "replaceFirst P f ds = Some ds'"
      and "\<And>d. P d \<Longrightarrow> P (f d)" and "\<And>d. P d \<Longrightarrow> f (f d) = f d"
  shows "replaceFirst P f ds' = Some ds'"
proof -
  from replaceFirst_Some [OF assms(1)] obtain xs d ys
    where "ds = xs @ d # ys" and d: "P d" and xs: "\<not> list_ex P xs" and ds': "ds' = xs @ f d # ys"
    by blast
  from d have "P (f d)" by (rule assms(2))
  with xs have "replaceFirst P f (xs @ f d # ys) = Some (xs @ f (f d) # ys)"
    by (rule replaceFirst_at)
  with d ds' show ?thesis by (simp add: assms(3))
qed

lemma Update_again:
  assumes "Update [(''_id'', VObjectId oid)] u db = (x, db')"
  shows "docs (snd (Update [(''_id'', VObjectId oid)] u db')) = docs db'"
proof (cases "online db")
  case False
  with assms have "db' = db\<lparr>calls := calls db @ [UpdateCall [(''_id'', VObjectId oid)] u]\<rparr>"
    by (auto simp: Update_def Let_def)
  with False show ?thesis by (simp add: Update_def Let_def)
next
  case True
  show ?thesis
  proof (cases "replaceFirst (matches [(''_id'', VObjectId oid)]) (replacement u) (docs db)")
    case None
    with True assms
    have db': "db' = db\<lparr>calls := calls db @ [UpdateCall [(''_id'', VObjectId oid)] u]\<rparr>"
      by (auto simp: Update_def Let_def)
    with True None show ?thesis by (simp add: Update_def Let_def)
  next
    case (Some ds)
    with True assms
    have db': "db' = db\<lparr>calls := calls db @ [UpdateCall [(''_id'', VObjectId oid)] u], docs := ds\<rparr>"
      by (auto simp: Update_def Let_def)
    have keep: "matches [(''_id'', VObjectId oid)] (replacement u d)"
      if "matches [(''_id'', VObjectId oid)] d" for d
      using that by (simp add: matches_def replacement_def)
    have idem: "replacement u (replacement u d) = replacement u d"
      if "matches [(''_id'', VObjectId oid)] d" for d
      using that by (simp add: matches_def replacement_def)
    from replaceFirst_again [OF Some keep idem]
    have "replaceFirst (matches [(''_id'', VObjectId oid)]) (replacement u) ds = Some ds" .
    with True db' show ?thesis by (simp add: Update_def Let_def)
  qed
qed

lemma updateTodo_main_again:
  "docs (snd (updateTodo_main r e' (snd (updateTodo_main r e db)))) = docs (snd (updateTodo_main r e db))"
proof (cases "IsObjectIdHex (TrimSpace (URLParam_id r))")
  case False
  then show ?thesis by (simp add: updateTodo_main_def Let_def)
next
  case True
  then obtain oid where oid: "ObjectIdHex (TrimSpace (URLParam_id r)) = Some oid"
    using IsObjectIdHex_ObjectIdHex by blast
  show ?thesis
  proof (cases "Body r")
    case (Inl err)
    with True show ?thesis by (simp add: updateTodo_main_def Let_def)
  next
    case (Inr t)
    show ?thesis
    proof (cases "todo.Title t = []")
      case True
      with Inr \<open>IsObjectIdHex (TrimSpace (URLParam_id r))\<close> show ?thesis
        by (simp add: updateTodo_main_def Let_def)
    next
      case False
      obtain x db' where u: "Update [(''_id'', VObjectId oid)]
                  [(''title'', VString (todo.Title t)), (''completed'', VBool (todo.Completed t))] db
             = (x, db')" by (cases "Update [(''_id'', VObjectId oid)]
                  [(''title'', VString (todo.Title t)), (''completed'', VBool (todo.Completed t))] db")
      from u True oid Inr False have first: "snd (updateTodo_main r e db) = db'"
        by (simp add: updateTodo_main_def Let_def split: option.splits)
      from True oid Inr False have second: "snd (updateTodo_main r e' db') =
          snd (Update [(''_id'', VObjectId oid)]
                  [(''title'', VString (todo.Title t)), (''completed'', VBool (todo.Completed t))] db')"
        by (simp add: updateTodo_main_def Let_def split: option.splits prod.splits)
      from Update_again [OF u] first second show ?thesis by simp
    qed
  qed
qed

lemma updateTodo_part_again:
  "docs (snd (updateTodo_part r e' (snd (updateTodo_part r e db)))) = docs (snd (updateTodo_part r e db))"
proof (cases "IsObjectIdHex (TrimSpace (URLParam_id r))")
  case False
  then show ?thesis by (simp add: updateTodo_part_def Let_def)
next
  case True
  then obtain oid where oid: "ObjectIdHex (TrimSpace (URLParam_id r)) = Some oid"
    using IsObjectIdHex_ObjectIdHex by blast
  show ?thesis
  proof (cases "Body r")
    case (Inl err)
    with True show ?thesis by (simp add: updateTodo_part_def Let_def)
  next
    case (Inr t)
    show ?thesis
    proof (cases "todo.Title t = []")
      case True
      with Inr \<open>IsObjectIdHex (TrimSpace (URLParam_id r))\<close> show ?thesis
        by (simp add: updateTodo_part_def Let_def)
    next
      case False
      obtain x db' where u: "Update [(''_id'', VObjectId oid)]
                  [(''title'', VString (todo.Title t)), (''completed'', VBool (todo.Completed t))] db
             = (x, db')" by (cases "Update [(''_id'', VObjectId oid)]
                  [(''title'', VString (todo.Title t)), (''completed'', VBool (todo.Completed t))] db")
      from u True oid Inr False have first: "snd (updateTodo_part r e db) = db'"
        by (simp add: updateTodo_part_def Let_def split: option.splits)
      from True oid Inr False have second: "snd (updateTodo_part r e' db') =
          snd (Update [(''_id'', VObjectId oid)]
                  [(''title'', VString (todo.Title t)), (''completed'', VBool (todo.Completed t))] db')"
        by (simp add: updateTodo_part_def Let_def split: option.splits prod.splits)
      from Update_again [OF u] first second show ?thesis by simp
    qed
  qed
qed

subsection \<open>The query of the list operation\<close>

lemma matches_empty: "filter (matches []) ds = ds"
  by (simp add: matches_def)

subsection \<open>The hex form of an identifier decodes to the identifier\<close>

lemma hextable_digits: "list_all (\<lambda>n. fromHexChar (hextable ! n) = Some n) [0..<16]"
  by code_simp

lemma fromHexChar_hextable: "n < 16 \<Longrightarrow> fromHexChar (hextable ! n) = Some n"
  using hextable_digits by (simp add: list_all_iff)

lemma of_char_less_256: "(of_char c :: nat) < 256"
proof -
  have "(of_char c :: nat) mod 256 = of_char c" by simp
  moreover have "(of_char c :: nat) mod 256 < 256" by simp
  ultimately show ?thesis by simp
qed

lemma DecodeString_EncodeToString: "DecodeString (EncodeToString s) = Some s"
proof (induction s)
  case Nil
  then show ?case by (simp add: EncodeToString_def)
next
  case (Cons v s)
  have hi: "(of_char v :: nat) div 16 < 16" using of_char_less_256 [of v] by (simp add: less_mult_imp_div_less)
  have lo: "(of_char v :: nat) mod 16 < 16" by simp
  have "(of_char v :: nat) div 16 * 16 + of_char v mod 16 = of_char v" by simp
  then have "char_of ((of_char v :: nat) div 16 * 16 + of_char v mod 16) = v" by simp
  with Cons hi lo show ?case
    by (simp add: EncodeToString_def fromHexChar_hextable)
qed

lemma ObjectIdHex_Hex: "length oid = 12 \<Longrightarrow> ObjectIdHex (Hex oid) = Some oid"
  by (simp add: ObjectIdHex_def Hex_def DecodeString_EncodeToString)

lemma length_EncodeToString: "length (EncodeToString s) = 2 * length s"
  by (induction s) (simp_all add: EncodeToString_def)

lemma IsObjectIdHex_Hex: "length oid = 12 \<Longrightarrow> IsObjectIdHex (Hex oid)"
  by (simp add: IsObjectIdHex_def Hex_def DecodeString_EncodeToString length_EncodeToString)

subsection \<open>What the list operation reads and renders\<close>

lemma EncodeToString_hextable: "list_all (\<lambda>c. c \<in> set hextable) (EncodeToString s)"
proof -
  have len: "length hextable = 16" by (simp add: hextable_def)
  have "hextable ! ((of_char v :: nat) div 16) \<in> set hextable
      \<and> hextable ! ((of_char v :: nat) mod 16) \<in> set hextable" for v
  proof -
    have "(of_char v :: nat) div 16 < 16"
      using of_char_less_256 [of v] by (simp add: less_mult_imp_div_less)
    moreover have "(of_char v :: nat) mod 16 < 16" by simp
    ultimately show ?thesis using len by (metis nth_mem)
  qed
  then show ?thesis by (induction s) (simp_all add: EncodeToString_def)
qed

lemma unmarshal_created:
  "tag \<noteq> ''_id'' \<Longrightarrow> tag \<noteq> ''title'' \<Longrightarrow> tag \<noteq> ''completed'' \<Longrightarrow>
   unmarshal tag [(''_id'', VObjectId oid), (''title'', VString s),
                  (''completed'', VBool b), (tag, VTime t)]
     = \<lparr>todoModel.ID = oid, todoModel.Title = s,
        todoModel.Completed = b, todoModel.CreatedAt = t\<rparr>"
  by (simp add: unmarshal_def readElem_def zeroTodoModel_def)

subsection \<open>The success path of \<open>updateTodo\<close> in the two files\<close>

lemma updateTodo_part_success_responds:
  assumes "IsObjectIdHex (TrimSpace (URLParam_id r))"
      and "Body r = Inr t" and "todo.Title t \<noteq> []"
      and "ObjectIdHex (TrimSpace (URLParam_id r)) = Some oid"
      and "Update [(''_id'', VObjectId oid)]
                  [(''title'', VString (todo.Title t)), (''completed'', VBool (todo.Completed t))] db
             = (None, db')"
  shows "updateTodo_part r e db =
           (Some \<lparr>status = 200,
                   body = RendererM [(''message'', JString ''Todo updated successfully'')]\<rparr>, db')"
  using assms by (simp add: updateTodo_part_def Let_def status_defs)

lemma updateTodo_main_success_silent:
  assumes "IsObjectIdHex (TrimSpace (URLParam_id r))"
      and "Body r = Inr t" and "todo.Title t \<noteq> []"
      and "ObjectIdHex (TrimSpace (URLParam_id r)) = Some oid"
      and "Update [(''_id'', VObjectId oid)]
                  [(''title'', VString (todo.Title t)), (''completed'', VBool (todo.Completed t))] db
             = (None, db')"
  shows "updateTodo_main r e db = (None, db')"
  using assms by (simp add: updateTodo_main_def Let_def status_defs)

text \<open>A successful \<open>Update\<close> leaves the matched document with its identifier and the
  fields of the update document, and nothing else; so does a successful update request.\<close>

lemma Update_success_effect:
  assumes "Update [(''_id'', VObjectId oid)] u db = (None, db')"
  shows "\<exists>xs d ys. docs db = xs @ d # ys \<and> hasId oid d \<and> \<not> list_ex (hasId oid) xs
           \<and> docs db' = xs @ ((''_id'', VObjectId oid) # u) # ys"
proof -
  from assms obtain ds
    where ds: "replaceFirst (matches [(''_id'', VObjectId oid)]) (replacement u) (docs db) = Some ds"
      and db': "docs db' = ds"
    by (auto simp: Update_def Let_def split: if_splits option.splits)
  from replaceFirst_Some [OF ds] obtain xs d ys
    where "docs db = xs @ d # ys" and d: "matches [(''_id'', VObjectId oid)] d"
      and xs: "\<not> list_ex (matches [(''_id'', VObjectId oid)]) xs"
      and "ds = xs @ replacement u d # ys"
    by blast
  moreover from d have "hasId oid d" by (simp add: matches_id)
  moreover from xs have "\<not> list_ex (hasId oid) xs" by (simp add: matches_id [abs_def])
  ultimately show ?thesis using db' by (auto simp: hasId_replacement)
qed

lemma updateTodo_success_replaces_document:
  assumes "fst (updateTodo_part r e db) =
             Some \<lparr>status = 200,
                    body = RendererM [(''message'', JString ''Todo updated successfully'')]\<rparr>"
  shows "\<exists>oid t xs d ys.
           ObjectIdHex (TrimSpace (URLParam_id r)) = Some oid \<and> Body r = Inr t
         \<and> docs db = xs @ d # ys \<and> hasId oid d \<and> \<not> list_ex (hasId oid) xs
         \<and> docs (snd (updateTodo_part r e db)) =
             xs @ [(''_id'', VObjectId oid), (''title'', VString (todo.Title t)),
                   (''completed'', VBool (todo.Completed t))] # ys"
proof -
  from assms obtain oid t db'
    where oid: "ObjectIdHex (TrimSpace (URLParam_id r)) = Some oid" and t: "Body r = Inr t"
      and u: "Update [(''_id'', VObjectId oid)]
                     [(''title'', VString (todo.Title t)), (''completed'', VBool (todo.Completed t))] db
                = (None, db')"
      and res: "snd (updateTodo_part r e db) = db'"
    by (auto simp: updateTodo_part_def Let_def status_defs
             split: if_splits sum.splits option.splits prod.splits)
  from Update_success_effect [OF u] oid t res show ?thesis by auto
qed

section \<open>Claims\<close>

subsection \<open>C1: the response of a successful update\<close>

text \<open>
  Claim C1 says that an update request which passes the three checks and whose
  \<open>Update\<close> call succeeds gets a confirmation written before the handler returns. The
  handler of src/unnamed/part_000 does so (\<open>updateTodo_part_success_responds\<close>). The
  handler of src/main.go does not: after the successful \<open>Update\<close> the function body
  ends, and nothing has been written (\<open>updateTodo_main_success_silent\<close>). The theorem
  evaluates src/main.go's handler on such a request: the identifier is in hex form, the body
  decodes, the title is not empty, the stored document is updated, and the handler returns
  having written nothing.
\<close>

theorem updateTodo_main_success_writes_nothing:
  "updateTodo_main
     \<lparr>URLParam_id = ''303132333435363738396162'',
      Body = Inr \<lparr>todo.ID = [], Title = ''Buy milk'', Completed = True, CreatedAt = 0\<rparr>\<rparr>
     \<lparr>Now = 2000, NewObjectId = ''cdefghijklmn''\<rparr>
     \<lparr>docs = [[(''_id'', VObjectId ''0123456789ab''),
               (''title'', VString ''Buy milk''),
               (''completed'', VBool False),
               (''createdAt'', VTime 1000)]],
      online = True, calls = []\<rparr>
   = (None,
      \<lparr>docs = [[(''_id'', VObjectId ''0123456789ab''),
                (''title'', VString ''Buy milk''),
                (''completed'', VBool True)]],
       online = True,
       calls = [UpdateCall [(''_id'', VObjectId ''0123456789ab'')]
                           [(''title'', VString ''Buy milk''), (''completed'', VBool True)]]\<rparr>)"
  by code_simp

subsection \<open>C2: what an update leaves of a stored item\<close>

text \<open>
  Claim C2 says that a successful update rewrites \<open>title\<close> and \<open>completed\<close> only and
  leaves \<open>id\<close> and \<open>created_at\<close> as they were. The identifier is kept, but the
  creation time is not: the handler passes the plain document
  \<open>{title, completed}\<close> to \<open>Update\<close>, without \<open>$set\<close>, so the store replaces the
  whole document and the field holding the creation time is gone. The theorem evaluates
  src/unnamed/part_000 on a collection of one item created at time 1000: the list
  operation shows \<open>created_at = 1000\<close> before the update; the update succeeds with status
  200 and leaves a document of \<open>_id\<close>, \<open>title\<close> and \<open>completed\<close>; the list operation
  then shows the zero time. src/main.go passes the same two documents to \<open>Update\<close>.
  On every successful update the document is left with these three fields
  (\<open>updateTodo_success_replaces_document\<close>).
\<close>

theorem updateTodo_drops_created_at:
  "fst (fetchTodos_part \<lparr>URLParam_id = [], Body = Inl (DecodeError ''EOF'')\<rparr>
          \<lparr>Now = 3000, NewObjectId = ''cdefghijklmn''\<rparr>
          (snd (updateTodo_part
             \<lparr>URLParam_id = ''303132333435363738396162'',
              Body = Inr \<lparr>todo.ID = [], Title = ''Buy milk'', Completed = True, CreatedAt = 0\<rparr>\<rparr>
             \<lparr>Now = 2000, NewObjectId = ''cdefghijklmn''\<rparr>
             \<lparr>docs = [[(''_id'', VObjectId ''0123456789ab''),
                       (''title'', VString ''Buy milk''),
                       (''completed'', VBool False),
                       (''created_at'', VTime 1000)]],
              online = True, calls = []\<rparr>)))
   = Some \<lparr>status = 200,
           body = RendererM [(''data'', JTodos [\<lparr>todo.ID = ''303132333435363738396162'',
                                               Title = ''Buy milk'', Completed = True,
                                               CreatedAt = 0\<rparr>])]\<rparr>
   \<and> fst (fetchTodos_part \<lparr>URLParam_id = [], Body = Inl (DecodeError ''EOF'')\<rparr>
          \<lparr>Now = 3000, NewObjectId = ''cdefghijklmn''\<rparr>
            \<lparr>docs = [[(''_id'', VObjectId ''0123456789ab''),
                       (''title'', VString ''Buy milk''),
                       (''completed'', VBool False),
                       (''created_at'', VTime 1000)]],
              online = True, calls = []\<rparr>)
   = Some \<lparr>status = 200,
           body = RendererM [(''data'', JTodos [\<lparr>todo.ID = ''303132333435363738396162'',
                                               Title = ''Buy milk'', Completed = False,
                                               CreatedAt = 1000\<rparr>])]\<rparr>
   \<and> updateTodo_part
             \<lparr>URLParam_id = ''303132333435363738396162'',
              Body = Inr \<lparr>todo.ID = [], Title = ''Buy milk'', Completed = True, CreatedAt = 0\<rparr>\<rparr>
             \<lparr>Now = 2000, NewObjectId = ''cdefghijklmn''\<rparr>
             \<lparr>docs = [[(''_id'', VObjectId ''0123456789ab''),
                       (''title'', VString ''Buy milk''),
                       (''completed'', VBool False),
                       (''created_at'', VTime 1000)]],
              online = True, calls = []\<rparr>
   = (Some \<lparr>status = 200,
            body = RendererM [(''message'', JString ''Todo updated successfully'')]\<rparr>,
      \<lparr>docs = [[(''_id'', VObjectId ''0123456789ab''),
                (''title'', VString ''Buy milk''),
                (''completed'', VBool True)]],
       online = True,
       calls = [UpdateCall [(''_id'', VObjectId ''0123456789ab'')]
                           [(''title'', VString ''Buy milk''), (''completed'', VBool True)]]\<rparr>)"
  by code_simp

subsection \<open>C3: a create request with an empty title\<close>

text \<open>
  Claim C3. When the body of a create request decodes and its title is the empty string,
  \<open>createTodo\<close> answers with status 400 and a message saying that the title is
  missing, and inserts nothing: the database it leaves is the one it found, documents and
  call trace alike, so no call reached the store. This holds in both source files, which
  differ in the wording of the message only.
\<close>

theorem createTodo_empty_title_rejected:
  assumes "Body r = Inr t" and "todo.Title t = []"
  shows "createTodo_main r e db =
           (Some \<lparr>status = 400,
                   body = RendererM [(''message'', JString ''The title is required'')]\<rparr>, db)
       \<and> createTodo_part r e db =
           (Some \<lparr>status = 400,
                   body = RendererM [(''message'', JString ''The title field is important'')]\<rparr>, db)"
  using assms by (simp add: createTodo_main_def createTodo_part_def status_defs)

theorem createTodo_empty_title_rejected_witness:
  "Body \<lparr>URLParam_id = [], Body = Inr \<lparr>todo.ID = ''7'', Title = [], Completed = True, CreatedAt = 3\<rparr>\<rparr>
     = Inr \<lparr>todo.ID = ''7'', Title = [], Completed = True, CreatedAt = 3\<rparr>
   \<and> todo.Title \<lparr>todo.ID = ''7'', Title = [], Completed = True, CreatedAt = 3\<rparr> = []
   \<and> createTodo_main
        \<lparr>URLParam_id = [], Body = Inr \<lparr>todo.ID = ''7'', Title = [], Completed = True, CreatedAt = 3\<rparr>\<rparr>
        \<lparr>Now = 2000, NewObjectId = ''0123456789ab''\<rparr>
        \<lparr>docs = [], online = True, calls = []\<rparr>
      = (Some \<lparr>status = 400,
                body = RendererM [(''message'', JString ''The title is required'')]\<rparr>,
         \<lparr>docs = [], online = True, calls = []\<rparr>)
   \<and> createTodo_part
        \<lparr>URLParam_id = [], Body = Inr \<lparr>todo.ID = ''7'', Title = [], Completed = True, CreatedAt = 3\<rparr>\<rparr>
        \<lparr>Now = 2000, NewObjectId = ''0123456789ab''\<rparr>
        \<lparr>docs = [], online = True, calls = []\<rparr>
      = (Some \<lparr>status = 400,
                body = RendererM [(''message'', JString ''The title field is important'')]\<rparr>,
         \<lparr>docs = [], online = True, calls = []\<rparr>)"
  using createTodo_empty_title_rejected
          [of "\<lparr>URLParam_id = [], Body = Inr \<lparr>todo.ID = ''7'', Title = [], Completed = True, CreatedAt = 3\<rparr>\<rparr>"
              "\<lparr>todo.ID = ''7'', Title = [], Completed = True, CreatedAt = 3\<rparr>"
              "\<lparr>Now = 2000, NewObjectId = ''0123456789ab''\<rparr>"
              "\<lparr>docs = [], online = True, calls = []\<rparr>"]
  by simp

subsection \<open>C4: what a create request stores\<close>

text \<open>
  Claim C4. When the body of a create request decodes with a non-empty title, the document
  handed to \<open>Insert\<close> carries the identifier drawn from \<open>bson.NewObjectId()\<close>, the
  title of the request, \<open>completed = false\<close> and the current time as creation time,
  whatever the request gave for \<open>id\<close>, \<open>completed\<close> and \<open>created_at\<close> (the theorem
  holds for every decoded \<open>t\<close>). When the insertion succeeds (the store is reachable and
  holds no document with this identifier), that document is appended to the collection,
  it is then the only stored document with its identifier, and the response has status 201
  and carries the identifier in hex form under \<open>todo_id\<close>: a well-formed identifier
  string, which \<open>bson.ObjectIdHex\<close> decodes to the stored identifier.
\<close>

theorem createTodo_persists_new_item:
  assumes "Body r = Inr t" and "todo.Title t \<noteq> []"
      and "length (NewObjectId e) = 12"
      and "online db" and "\<not> list_ex (hasId (NewObjectId e)) (docs db)"
  shows "createTodo_main r e db =
           (Some \<lparr>status = 201,
                   body = RendererM [(''message'', JString ''Todo created successfully''),
                                     (''todo_id'', JString (Hex (NewObjectId e)))]\<rparr>,
            db\<lparr>docs := docs db @ [[(''_id'', VObjectId (NewObjectId e)),
                                    (''title'', VString (todo.Title t)),
                                    (''completed'', VBool False),
                                    (''createdAt'', VTime (Now e))]],
               calls := calls db @ [InsertCall [(''_id'', VObjectId (NewObjectId e)),
                                                (''title'', VString (todo.Title t)),
                                                (''completed'', VBool False),
                                                (''createdAt'', VTime (Now e))]]\<rparr>)
       \<and> createTodo_part r e db =
           (Some \<lparr>status = 201,
                   body = RendererM [(''message'', JString ''Todo created successfully''),
                                     (''todo_id'', JString (Hex (NewObjectId e)))]\<rparr>,
            db\<lparr>docs := docs db @ [[(''_id'', VObjectId (NewObjectId e)),
                                    (''title'', VString (todo.Title t)),
                                    (''completed'', VBool False),
                                    (''created_at'', VTime (Now e))]],
               calls := calls db @ [InsertCall [(''_id'', VObjectId (NewObjectId e)),
                                                (''title'', VString (todo.Title t)),
                                                (''completed'', VBool False),
                                                (''created_at'', VTime (Now e))]]\<rparr>)
       \<and> length (filter (hasId (NewObjectId e)) (docs (snd (createTodo_main r e db)))) = 1
       \<and> length (filter (hasId (NewObjectId e)) (docs (snd (createTodo_part r e db)))) = 1
       \<and> IsObjectIdHex (Hex (NewObjectId e))
       \<and> ObjectIdHex (Hex (NewObjectId e)) = Some (NewObjectId e)"
proof -
  from assms(3) have ne: "NewObjectId e \<noteq> []" by auto
  have dup: "list_ex (\<lambda>d'. map_of d' ''_id'' = Some (VObjectId (NewObjectId e))) (docs db)
               = list_ex (hasId (NewObjectId e)) (docs db)"
    by (simp add: hasId_def [abs_def])
  from assms(5) have none: "filter (hasId (NewObjectId e)) (docs db) = []"
    by (simp add: list_ex_iff filter_empty_conv)
  have m: "createTodo_main r e db =
           (Some \<lparr>status = 201,
                   body = RendererM [(''message'', JString ''Todo created successfully''),
                                     (''todo_id'', JString (Hex (NewObjectId e)))]\<rparr>,
            db\<lparr>docs := docs db @ [[(''_id'', VObjectId (NewObjectId e)),
                                    (''title'', VString (todo.Title t)),
                                    (''completed'', VBool False),
                                    (''createdAt'', VTime (Now e))]],
               calls := calls db @ [InsertCall [(''_id'', VObjectId (NewObjectId e)),
                                                (''title'', VString (todo.Title t)),
                                                (''completed'', VBool False),
                                                (''createdAt'', VTime (Now e))]]\<rparr>)"
    using assms(1,2,4,5) ne dup
    by (simp add: createTodo_main_def marshal_def Insert_def Let_def status_defs)
  have p: "createTodo_part r e db =
           (Some \<lparr>status = 201,
                   body = RendererM [(''message'', JString ''Todo created successfully''),
                                     (''todo_id'', JString (Hex (NewObjectId e)))]\<rparr>,
            db\<lparr>docs := docs db @ [[(''_id'', VObjectId (NewObjectId e)),
                                    (''title'', VString (todo.Title t)),
                                    (''completed'', VBool False),
                                    (''created_at'', VTime (Now e))]],
               calls := calls db @ [InsertCall [(''_id'', VObjectId (NewObjectId e)),
                                                (''title'', VString (todo.Title t)),
                                                (''completed'', VBool False),
                                                (''created_at'', VTime (Now e))]]\<rparr>)"
    using assms(1,2,4,5) ne dup
    by (simp add: createTodo_part_def marshal_def Insert_def Let_def status_defs)
  have um: "length (filter (hasId (NewObjectId e)) (docs (snd (createTodo_main r e db)))) = 1"
    unfolding m using none by (simp add: hasId_def)
  have up: "length (filter (hasId (NewObjectId e)) (docs (snd (createTodo_part r e db)))) = 1"
    unfolding p using none by (simp add: hasId_def)
  from assms(3) have hx: "IsObjectIdHex (Hex (NewObjectId e))"
    by (rule IsObjectIdHex_Hex)
  from assms(3) have rt: "ObjectIdHex (Hex (NewObjectId e)) = Some (NewObjectId e)"
    by (rule ObjectIdHex_Hex)
  from m p um up hx rt show ?thesis by blast
qed

theorem createTodo_persists_new_item_witness:
  "Body \<lparr>URLParam_id = [],
         Body = Inr \<lparr>todo.ID = ''7'', Title = ''Buy milk'', Completed = True, CreatedAt = 3\<rparr>\<rparr>
     = Inr \<lparr>todo.ID = ''7'', Title = ''Buy milk'', Completed = True, CreatedAt = 3\<rparr>
   \<and> todo.Title \<lparr>todo.ID = ''7'', Title = ''Buy milk'', Completed = True, CreatedAt = 3\<rparr> \<noteq> []
   \<and> length (NewObjectId \<lparr>Now = 2000, NewObjectId = ''0123456789ab''\<rparr>) = 12
   \<and> online \<lparr>docs = [], online = True, calls = []\<rparr>
   \<and> \<not> list_ex (hasId (NewObjectId \<lparr>Now = 2000, NewObjectId = ''0123456789ab''\<rparr>))
               (docs \<lparr>docs = [], online = True, calls = []\<rparr>)
   \<and> createTodo_main
        \<lparr>URLParam_id = [],
         Body = Inr \<lparr>todo.ID = ''7'', Title = ''Buy milk'', Completed = True, CreatedAt = 3\<rparr>\<rparr>
        \<lparr>Now = 2000, NewObjectId = ''0123456789ab''\<rparr>
        \<lparr>docs = [], online = True, calls = []\<rparr>
      = (Some \<lparr>status = 201,
                body = RendererM [(''message'', JString ''Todo created successfully''),
                                  (''todo_id'', JString (Hex ''0123456789ab''))]\<rparr>,
         \<lparr>docs = [[(''_id'', VObjectId ''0123456789ab''),
                   (''title'', VString ''Buy milk''),
                   (''completed'', VBool False),
                   (''createdAt'', VTime 2000)]],
          online = True,
          calls = [InsertCall [(''_id'', VObjectId ''0123456789ab''),
                               (''title'', VString ''Buy milk''),
                               (''completed'', VBool False),
                               (''createdAt'', VTime 2000)]]\<rparr>)
   \<and> Hex ''0123456789ab'' = ''303132333435363738396162''"
proof -
  have hex: "Hex ''0123456789ab'' = ''303132333435363738396162''" by code_simp
  show ?thesis
    using createTodo_persists_new_item
            [of "\<lparr>URLParam_id = [],
                  Body = Inr \<lparr>todo.ID = ''7'', Title = ''Buy milk'', Completed = True, CreatedAt = 3\<rparr>\<rparr>"
                "\<lparr>todo.ID = ''7'', Title = ''Buy milk'', Completed = True, CreatedAt = 3\<rparr>"
                "\<lparr>Now = 2000, NewObjectId = ''0123456789ab''\<rparr>"
                "\<lparr>docs = [], online = True, calls = []\<rparr>"]
          hex
    by simp
qed

subsection \<open>C5: the order of the checks of an update request\<close>

text \<open>
  Claim C5, as amended. The claim states its first check on the path identifier itself;
  the handler checks the identifier after \<open>strings.TrimSpace\<close>, so an identifier in hex
  form with white space around it passes (the counterexample below). With the first check
  read on the trimmed identifier the order holds in both source files, the first failure
  deciding the response: (1) when the trimmed identifier is no 24-digit hexadecimal
  string, the response is 400; (2) otherwise, when decoding the body fails, the response
  is the decoding error with status 102; (3) otherwise, when the decoded title is empty,
  the response is 400. In all three cases the database is returned as it was found, call
  trace included: no call was made on the store.
\<close>

theorem updateTodo_validation_order:
  "(\<not> IsObjectIdHex (TrimSpace (URLParam_id r)) \<longrightarrow>
      updateTodo_main r e db =
        (Some \<lparr>status = 400, body = RendererM [(''message'', JString ''The ID is invalid'')]\<rparr>, db)
    \<and> updateTodo_part r e db =
        (Some \<lparr>status = 400, body = RendererM [(''message'', JString ''The id is invalid'')]\<rparr>, db))
 \<and> (IsObjectIdHex (TrimSpace (URLParam_id r)) \<and> Body r = Inl err \<longrightarrow>
      updateTodo_main r e db = (Some \<lparr>status = 102, body = ErrorValue err\<rparr>, db)
    \<and> updateTodo_part r e db = (Some \<lparr>status = 102, body = ErrorValue err\<rparr>, db))
 \<and> (IsObjectIdHex (TrimSpace (URLParam_id r)) \<and> Body r = Inr t \<and> todo.Title t = [] \<longrightarrow>
      updateTodo_main r e db =
        (Some \<lparr>status = 400,
                body = RendererM [(''message'', JString ''The Title field is required'')]\<rparr>, db)
    \<and> updateTodo_part r e db =
        (Some \<lparr>status = 400,
                body = RendererM [(''message'', JString ''The title field is required'')]\<rparr>, db))"
  by (simp add: updateTodo_main_def updateTodo_part_def Let_def status_defs)

theorem updateTodo_validation_order_witness:
  "(\<not> IsObjectIdHex (TrimSpace (URLParam_id \<lparr>URLParam_id = ''abc'', Body = Inl (DecodeError ''EOF'')\<rparr>))
    \<and> updateTodo_main \<lparr>URLParam_id = ''abc'', Body = Inl (DecodeError ''EOF'')\<rparr>
         \<lparr>Now = 2000, NewObjectId = ''cdefghijklmn''\<rparr> \<lparr>docs = [], online = True, calls = []\<rparr>
       = (Some \<lparr>status = 400, body = RendererM [(''message'', JString ''The ID is invalid'')]\<rparr>,
          \<lparr>docs = [], online = True, calls = []\<rparr>))
 \<and> (IsObjectIdHex (TrimSpace (URLParam_id
        \<lparr>URLParam_id = ''303132333435363738396162'', Body = Inl (DecodeError ''EOF'')\<rparr>))
    \<and> Body \<lparr>URLParam_id = ''303132333435363738396162'', Body = Inl (DecodeError ''EOF'')\<rparr>
        = Inl (DecodeError ''EOF'')
    \<and> updateTodo_main \<lparr>URLParam_id = ''303132333435363738396162'', Body = Inl (DecodeError ''EOF'')\<rparr>
         \<lparr>Now = 2000, NewObjectId = ''cdefghijklmn''\<rparr> \<lparr>docs = [], online = True, calls = []\<rparr>
       = (Some \<lparr>status = 102, body = ErrorValue (DecodeError ''EOF'')\<rparr>,
          \<lparr>docs = [], online = True, calls = []\<rparr>))
 \<and> (IsObjectIdHex (TrimSpace (URLParam_id
        \<lparr>URLParam_id = ''303132333435363738396162'',
         Body = Inr \<lparr>todo.ID = [], Title = [], Completed = True, CreatedAt = 0\<rparr>\<rparr>))
    \<and> Body \<lparr>URLParam_id = ''303132333435363738396162'',
              Body = Inr \<lparr>todo.ID = [], Title = [], Completed = True, CreatedAt = 0\<rparr>\<rparr>
        = Inr \<lparr>todo.ID = [], Title = [], Completed = True, CreatedAt = 0\<rparr>
    \<and> todo.Title \<lparr>todo.ID = [], Title = [], Completed = True, CreatedAt = 0\<rparr> = []
    \<and> updateTodo_main
         \<lparr>URLParam_id = ''303132333435363738396162'',
          Body = Inr \<lparr>todo.ID = [], Title = [], Completed = True, CreatedAt = 0\<rparr>\<rparr>
         \<lparr>Now = 2000, NewObjectId = ''cdefghijklmn''\<rparr> \<lparr>docs = [], online = True, calls = []\<rparr>
       = (Some \<lparr>status = 400,
                 body = RendererM [(''message'', JString ''The Title field is required'')]\<rparr>,
          \<lparr>docs = [], online = True, calls = []\<rparr>))"
proof -
  have bad: "\<not> IsObjectIdHex (TrimSpace ''abc'')" by code_simp
  have good: "IsObjectIdHex (TrimSpace ''303132333435363738396162'')" by code_simp
  show ?thesis
    using bad good
      updateTodo_validation_order
        [of "\<lparr>URLParam_id = ''abc'', Body = Inl (DecodeError ''EOF'')\<rparr>"
            "\<lparr>Now = 2000, NewObjectId = ''cdefghijklmn''\<rparr>"
            "\<lparr>docs = [], online = True, calls = []\<rparr>"]
      updateTodo_validation_order
        [of "\<lparr>URLParam_id = ''303132333435363738396162'', Body = Inl (DecodeError ''EOF'')\<rparr>"
            "\<lparr>Now = 2000, NewObjectId = ''cdefghijklmn''\<rparr>"
            "\<lparr>docs = [], online = True, calls = []\<rparr>"
            "DecodeError ''EOF''"]
      updateTodo_validation_order
        [of "\<lparr>URLParam_id = ''303132333435363738396162'',
              Body = Inr \<lparr>todo.ID = [], Title = [], Completed = True, CreatedAt = 0\<rparr>\<rparr>"
            "\<lparr>Now = 2000, NewObjectId = ''cdefghijklmn''\<rparr>"
            "\<lparr>docs = [], online = True, calls = []\<rparr>"
            _ "\<lparr>todo.ID = [], Title = [], Completed = True, CreatedAt = 0\<rparr>"]
    by simp
qed

text \<open>
  The claim as stated fails on an identifier with a leading space: it is no 24-digit
  hexadecimal string, yet \<open>updateTodo\<close> does not answer 400 and calls \<open>Update\<close> with
  the trimmed identifier (status 200 in src/unnamed/part_000 on a collection holding the
  item; the answer of a failed \<open>Update\<close> in src/main.go on an empty collection).
\<close>

theorem updateTodo_padded_identifier_counterexample:
  "\<not> IsObjectIdHex '' 303132333435363738396162''
   \<and> updateTodo_part
       \<lparr>URLParam_id = '' 303132333435363738396162'',
        Body = Inr \<lparr>todo.ID = [], Title = ''Buy milk'', Completed = True, CreatedAt = 0\<rparr>\<rparr>
       \<lparr>Now = 2000, NewObjectId = ''cdefghijklmn''\<rparr>
       \<lparr>docs = [[(''_id'', VObjectId ''0123456789ab''),
                 (''title'', VString ''Buy milk''),
                 (''completed'', VBool False),
                 (''created_at'', VTime 1000)]],
        online = True, calls = []\<rparr>
     = (Some \<lparr>status = 200,
              body = RendererM [(''message'', JString ''Todo updated successfully'')]\<rparr>,
        \<lparr>docs = [[(''_id'', VObjectId ''0123456789ab''),
                  (''title'', VString ''Buy milk''),
                  (''completed'', VBool True)]],
         online = True,
         calls = [UpdateCall [(''_id'', VObjectId ''0123456789ab'')]
                             [(''title'', VString ''Buy milk''), (''completed'', VBool True)]]\<rparr>)
   \<and> updateTodo_main
       \<lparr>URLParam_id = '' 303132333435363738396162'',
        Body = Inr \<lparr>todo.ID = [], Title = ''Buy milk'', Completed = True, CreatedAt = 0\<rparr>\<rparr>
       \<lparr>Now = 2000, NewObjectId = ''cdefghijklmn''\<rparr>
       \<lparr>docs = [], online = True, calls = []\<rparr>
     = (Some \<lparr>status = 102,
              body = RendererM [(''message'', JString ''Failed to update todo'')]\<rparr>,
        \<lparr>docs = [], online = True,
         calls = [UpdateCall [(''_id'', VObjectId ''0123456789ab'')]
                             [(''title'', VString ''Buy milk''), (''completed'', VBool True)]]\<rparr>)"
  by code_simp

subsection \<open>C6: the list operation\<close>

text \<open>
  Claim C6. When the store is reachable, so that the query of the list operation
  succeeds, \<open>fetchTodos\<close> answers with status 200 and, under \<open>data\<close>, one \<open>todo\<close>
  for every document of the collection, in storage order: the document read into a
  \<open>todoModel\<close>, its identifier rendered by \<open>Hex\<close>, its title, completion flag and
  creation time copied. The rendered identifier is a string of the digits
  \<open>0123456789abcdef\<close> that \<open>hex.DecodeString\<close> decodes to the identifier read. For a
  document as \<open>createTodo\<close> writes it, the entry has the stored title, flag and time,
  and an identifier of twice as many hexadecimal digits as the stored identifier has bytes,
  which decodes to the stored identifier; when that has its twelve bytes, the entry's
  identifier is a well-formed one in hex form. On an empty collection the answer is
  status 200 with the empty sequence under \<open>data\<close>. The only call made on the store is
  the query.
\<close>

theorem fetchTodos_lists_every_item:
  assumes "online db"
  shows "\<exists>lm lp.
           fetchTodos_main r e db =
             (Some \<lparr>status = 200, body = RendererM [(''data'', JTodos lm)]\<rparr>,
              db\<lparr>calls := calls db @ [FindCall []]\<rparr>)
         \<and> fetchTodos_part r e db =
             (Some \<lparr>status = 200, body = RendererM [(''data'', JTodos lp)]\<rparr>,
              db\<lparr>calls := calls db @ [FindCall []]\<rparr>)
         \<and> lm = map (\<lambda>d. \<lparr>todo.ID = Hex (todoModel.ID (unmarshal ''createdAt'' d)),
                            todo.Title = todoModel.Title (unmarshal ''createdAt'' d),
                            todo.Completed = todoModel.Completed (unmarshal ''createdAt'' d),
                            todo.CreatedAt = todoModel.CreatedAt (unmarshal ''createdAt'' d)\<rparr>)
                     (docs db)
         \<and> lp = map (\<lambda>d. \<lparr>todo.ID = Hex (todoModel.ID (unmarshal ''created_at'' d)),
                            todo.Title = todoModel.Title (unmarshal ''created_at'' d),
                            todo.Completed = todoModel.Completed (unmarshal ''created_at'' d),
                            todo.CreatedAt = todoModel.CreatedAt (unmarshal ''created_at'' d)\<rparr>)
                     (docs db)
         \<and> (docs db = [] \<longrightarrow> lm = [] \<and> lp = [])
         \<and> (\<forall>i. i < length (docs db) \<longrightarrow>
               DecodeString (todo.ID (lm ! i))
                 = Some (todoModel.ID (unmarshal ''createdAt'' (docs db ! i)))
             \<and> list_all (\<lambda>c. c \<in> set hextable) (todo.ID (lm ! i))
             \<and> DecodeString (todo.ID (lp ! i))
                 = Some (todoModel.ID (unmarshal ''created_at'' (docs db ! i)))
             \<and> list_all (\<lambda>c. c \<in> set hextable) (todo.ID (lp ! i)))
         \<and> (\<forall>i oid s b t.
               i < length (docs db) \<and>
               docs db ! i = [(''_id'', VObjectId oid), (''title'', VString s),
                              (''completed'', VBool b), (''createdAt'', VTime t)] \<longrightarrow>
               todo.Title (lm ! i) = s \<and> todo.Completed (lm ! i) = b
             \<and> todo.CreatedAt (lm ! i) = t
             \<and> DecodeString (todo.ID (lm ! i)) = Some oid
             \<and> length (todo.ID (lm ! i)) = 2 * length oid
             \<and> (length oid = 12 \<longrightarrow>
                  IsObjectIdHex (todo.ID (lm ! i)) \<and> ObjectIdHex (todo.ID (lm ! i)) = Some oid))
         \<and> (\<forall>i oid s b t.
               i < length (docs db) \<and>
               docs db ! i = [(''_id'', VObjectId oid), (''title'', VString s),
                              (''completed'', VBool b), (''created_at'', VTime t)] \<longrightarrow>
               todo.Title (lp ! i) = s \<and> todo.Completed (lp ! i) = b
             \<and> todo.CreatedAt (lp ! i) = t
             \<and> DecodeString (todo.ID (lp ! i)) = Some oid
             \<and> length (todo.ID (lp ! i)) = 2 * length oid
             \<and> (length oid = 12 \<longrightarrow>
                  IsObjectIdHex (todo.ID (lp ! i)) \<and> ObjectIdHex (todo.ID (lp ! i)) = Some oid))"
  using assms
  by (simp add: fetchTodos_main_def fetchTodos_part_def FindAll_def Let_def matches_empty
                status_defs unmarshal_created Hex_def DecodeString_EncodeToString
                EncodeToString_hextable length_EncodeToString
                IsObjectIdHex_Hex [unfolded Hex_def] ObjectIdHex_Hex [unfolded Hex_def])

theorem fetchTodos_lists_every_item_witness:
  "online \<lparr>docs = [], online = True, calls = []\<rparr>
   \<and> fetchTodos_main \<lparr>URLParam_id = [], Body = Inl (DecodeError ''EOF'')\<rparr>
        \<lparr>Now = 2000, NewObjectId = ''cdefghijklmn''\<rparr>
        \<lparr>docs = [], online = True, calls = []\<rparr>
      = (Some \<lparr>status = 200, body = RendererM [(''data'', JTodos [])]\<rparr>,
         \<lparr>docs = [], online = True, calls = [FindCall []]\<rparr>)
   \<and> online \<lparr>docs = [[(''_id'', VObjectId ''0123456789ab''), (''title'', VString ''Buy milk''),
                        (''completed'', VBool False), (''created_at'', VTime 1000)],
                       [(''_id'', VObjectId ''cdefghijklmn''), (''title'', VString ''Buy bread''),
                        (''completed'', VBool True)],
                       [(''_id'', VString ''abc''), (''title'', VObjectId ''0123456789ab'')]],
              online = True, calls = []\<rparr>
   \<and> fetchTodos_part \<lparr>URLParam_id = [], Body = Inl (DecodeError ''EOF'')\<rparr>
        \<lparr>Now = 2000, NewObjectId = ''cdefghijklmn''\<rparr>
        \<lparr>docs = [[(''_id'', VObjectId ''0123456789ab''), (''title'', VString ''Buy milk''),
                   (''completed'', VBool False), (''created_at'', VTime 1000)],
                  [(''_id'', VObjectId ''cdefghijklmn''), (''title'', VString ''Buy bread''),
                   (''completed'', VBool True)],
                  [(''_id'', VString ''abc''), (''title'', VObjectId ''0123456789ab'')]],
         online = True, calls = []\<rparr>
      = (Some \<lparr>status = 200,
                body = RendererM [(''data'', JTodos [\<lparr>todo.ID = ''303132333435363738396162'',
                                                    Title = ''Buy milk'', Completed = False,
                                                    CreatedAt = 1000\<rparr>,
                                                   \<lparr>todo.ID = ''636465666768696a6b6c6d6e'',
                                                    Title = ''Buy bread'', Completed = True,
                                                    CreatedAt = 0\<rparr>,
                                                   \<lparr>todo.ID = ''616263'',
                                                    Title = ''0123456789ab'', Completed = False,
                                                    CreatedAt = 0\<rparr>])]\<rparr>,
         \<lparr>docs = [[(''_id'', VObjectId ''0123456789ab''), (''title'', VString ''Buy milk''),
                   (''completed'', VBool False), (''created_at'', VTime 1000)],
                  [(''_id'', VObjectId ''cdefghijklmn''), (''title'', VString ''Buy bread''),
                   (''completed'', VBool True)],
                  [(''_id'', VString ''abc''), (''title'', VObjectId ''0123456789ab'')]],
          online = True, calls = [FindCall []]\<rparr>)"
proof -
  have h1: "Hex ''0123456789ab'' = ''303132333435363738396162''" by code_simp
  have h2: "Hex ''cdefghijklmn'' = ''636465666768696a6b6c6d6e''" by code_simp
  have h3: "Hex ''abc'' = ''616263''" by code_simp
  show ?thesis
    using h1 h2 h3
        fetchTodos_lists_every_item
          [of "\<lparr>docs = [], online = True, calls = []\<rparr>"
              "\<lparr>URLParam_id = [], Body = Inl (DecodeError ''EOF'')\<rparr>"
              "\<lparr>Now = 2000, NewObjectId = ''cdefghijklmn''\<rparr>"]
        fetchTodos_lists_every_item
          [of "\<lparr>docs = [[(''_id'', VObjectId ''0123456789ab''), (''title'', VString ''Buy milk''),
                        (''completed'', VBool False), (''created_at'', VTime 1000)],
                       [(''_id'', VObjectId ''cdefghijklmn''), (''title'', VString ''Buy bread''),
                        (''completed'', VBool True)],
                       [(''_id'', VString ''abc''), (''title'', VObjectId ''0123456789ab'')]],
                online = True, calls = []\<rparr>"
              "\<lparr>URLParam_id = [], Body = Inl (DecodeError ''EOF'')\<rparr>"
              "\<lparr>Now = 2000, NewObjectId = ''cdefghijklmn''\<rparr>"]
    by (simp add: unmarshal_def readElem_def zeroTodoModel_def zeroTime_def)
qed

subsection \<open>C7: deleting by identifier\<close>

text \<open>
  Claim C7, as amended. The claim speaks of every delete request with a well-formed
  identifier; its two cases are those of a store that can be reached. For a delete request
  whose identifier is a well-formed one in hex form: with the store reachable, when the
  collection holds a document with this identifier, the first such document is taken out
  of the collection, the others stay as they are, and the response is status 200 with the
  confirmation; when it holds none, \<open>RemoveId\<close> returns \<open>ErrNotFound\<close>, the collection
  stays as it is, and the handler answers with status 102, the failure message and that
  error. With the store out of reach, \<open>RemoveId\<close> fails as well: nothing is removed, and
  the handler answers with status 102 and the failure message. Both source files agree.
\<close>

theorem deleteTodo_removes_or_reports:
  assumes "IsObjectIdHex (URLParam_id r)"
  shows "\<exists>oid. ObjectIdHex (URLParam_id r) = Some oid
         \<and> (online db \<and> list_ex (hasId oid) (docs db) \<longrightarrow>
              (\<exists>xs d ys. docs db = xs @ d # ys \<and> hasId oid d \<and> \<not> list_ex (hasId oid) xs
                 \<and> deleteTodo_main r e db =
                     (Some \<lparr>status = 200,
                             body = RendererM [(''message'', JString ''Todo deleted successfully'')]\<rparr>,
                      db\<lparr>docs := xs @ ys, calls := calls db @ [RemoveIdCall oid]\<rparr>)
                 \<and> deleteTodo_part r e db =
                     (Some \<lparr>status = 200,
                             body = RendererM [(''message'', JString ''Todo deleted successfully'')]\<rparr>,
                      db\<lparr>docs := xs @ ys, calls := calls db @ [RemoveIdCall oid]\<rparr>)))
         \<and> (online db \<and> \<not> list_ex (hasId oid) (docs db) \<longrightarrow>
                deleteTodo_main r e db =
                  (Some \<lparr>status = 102,
                          body = RendererM [(''message'', JString ''Failed to delete todo''),
                                            (''error'', JError ErrNotFound)]\<rparr>,
                   db\<lparr>calls := calls db @ [RemoveIdCall oid]\<rparr>)
              \<and> deleteTodo_part r e db =
                  (Some \<lparr>status = 102,
                          body = RendererM [(''message'', JString ''Failed to delete todo''),
                                            (''error'', JError ErrNotFound)]\<rparr>,
                   db\<lparr>calls := calls db @ [RemoveIdCall oid]\<rparr>))
         \<and> (\<not> online db \<longrightarrow>
                deleteTodo_main r e db =
                  (Some \<lparr>status = 102,
                          body = RendererM [(''message'', JString ''Failed to delete todo''),
                                            (''error'', JError Unreachable)]\<rparr>,
                   db\<lparr>calls := calls db @ [RemoveIdCall oid]\<rparr>)
              \<and> deleteTodo_part r e db =
                  (Some \<lparr>status = 102,
                          body = RendererM [(''message'', JString ''Failed to delete todo''),
                                            (''error'', JError Unreachable)]\<rparr>,
                   db\<lparr>calls := calls db @ [RemoveIdCall oid]\<rparr>))"
proof -
  from assms have trim: "TrimSpace (URLParam_id r) = URLParam_id r" by (rule TrimSpace_hex)
  from assms obtain oid where oid: "ObjectIdHex (URLParam_id r) = Some oid"
    using IsObjectIdHex_ObjectIdHex by blast
  have found: "\<exists>xs d ys. docs db = xs @ d # ys \<and> hasId oid d \<and> \<not> list_ex (hasId oid) xs
                 \<and> deleteTodo_main r e db =
                     (Some \<lparr>status = 200,
                             body = RendererM [(''message'', JString ''Todo deleted successfully'')]\<rparr>,
                      db\<lparr>docs := xs @ ys, calls := calls db @ [RemoveIdCall oid]\<rparr>)
                 \<and> deleteTodo_part r e db =
                     (Some \<lparr>status = 200,
                             body = RendererM [(''message'', JString ''Todo deleted successfully'')]\<rparr>,
                      db\<lparr>docs := xs @ ys, calls := calls db @ [RemoveIdCall oid]\<rparr>)"
    if on: "online db" and ex: "list_ex (hasId oid) (docs db)"
  proof -
    from ex obtain ds where ds: "removeFirst (hasId oid) (docs db) = Some ds"
      using removeFirst_None [of "hasId oid" "docs db"] by (cases "removeFirst (hasId oid) (docs db)") auto
    from removeFirst_Some [OF ds] obtain xs d ys
      where split: "docs db = xs @ d # ys" "hasId oid d" "\<not> list_ex (hasId oid) xs" "ds = xs @ ys"
      by blast
    have "deleteTodo_main r e db =
            (Some \<lparr>status = 200,
                    body = RendererM [(''message'', JString ''Todo deleted successfully'')]\<rparr>,
             db\<lparr>docs := xs @ ys, calls := calls db @ [RemoveIdCall oid]\<rparr>)"
      using assms on trim oid ds split(4)
      by (simp add: deleteTodo_main_def RemoveId_def Let_def status_defs)
    moreover have "deleteTodo_part r e db =
            (Some \<lparr>status = 200,
                    body = RendererM [(''message'', JString ''Todo deleted successfully'')]\<rparr>,
             db\<lparr>docs := xs @ ys, calls := calls db @ [RemoveIdCall oid]\<rparr>)"
      using assms on trim oid ds split(4)
      by (simp add: deleteTodo_part_def RemoveId_def Let_def status_defs)
    ultimately show ?thesis using split(1,2,3) by blast
  qed
  have missing: "deleteTodo_main r e db =
                  (Some \<lparr>status = 102,
                          body = RendererM [(''message'', JString ''Failed to delete todo''),
                                            (''error'', JError ErrNotFound)]\<rparr>,
                   db\<lparr>calls := calls db @ [RemoveIdCall oid]\<rparr>)
              \<and> deleteTodo_part r e db =
                  (Some \<lparr>status = 102,
                          body = RendererM [(''message'', JString ''Failed to delete todo''),
                                            (''error'', JError ErrNotFound)]\<rparr>,
                   db\<lparr>calls := calls db @ [RemoveIdCall oid]\<rparr>)"
    if on: "online db" and nex: "\<not> list_ex (hasId oid) (docs db)"
  proof -
    from nex have "removeFirst (hasId oid) (docs db) = None" by (simp add: removeFirst_None)
    with assms on trim oid show ?thesis
      by (simp add: deleteTodo_main_def deleteTodo_part_def RemoveId_def Let_def status_defs)
  qed
  have down: "deleteTodo_main r e db =
                  (Some \<lparr>status = 102,
                          body = RendererM [(''message'', JString ''Failed to delete todo''),
                                            (''error'', JError Unreachable)]\<rparr>,
                   db\<lparr>calls := calls db @ [RemoveIdCall oid]\<rparr>)
              \<and> deleteTodo_part r e db =
                  (Some \<lparr>status = 102,
                          body = RendererM [(''message'', JString ''Failed to delete todo''),
                                            (''error'', JError Unreachable)]\<rparr>,
                   db\<lparr>calls := calls db @ [RemoveIdCall oid]\<rparr>)"
    if off: "\<not> online db"
    using assms off trim oid
    by (simp add: deleteTodo_main_def deleteTodo_part_def RemoveId_def Let_def status_defs)
  from oid found missing down show ?thesis by blast
qed

theorem deleteTodo_removes_or_reports_witness:
  "IsObjectIdHex (URLParam_id \<lparr>URLParam_id = ''303132333435363738396162'',
                              Body = Inl (DecodeError ''EOF'')\<rparr>)
   \<and> online \<lparr>docs = [[(''_id'', VObjectId ''0123456789ab''), (''title'', VString ''Buy milk''),
                        (''completed'', VBool False), (''createdAt'', VTime 1000)]],
              online = True, calls = []\<rparr>
   \<and> list_ex (hasId ''0123456789ab'')
        (docs \<lparr>docs = [[(''_id'', VObjectId ''0123456789ab''), (''title'', VString ''Buy milk''),
                         (''completed'', VBool False), (''createdAt'', VTime 1000)]],
               online = True, calls = []\<rparr>)
   \<and> deleteTodo_main
        \<lparr>URLParam_id = ''303132333435363738396162'', Body = Inl (DecodeError ''EOF'')\<rparr>
        \<lparr>Now = 2000, NewObjectId = ''cdefghijklmn''\<rparr>
        \<lparr>docs = [[(''_id'', VObjectId ''0123456789ab''), (''title'', VString ''Buy milk''),
                   (''completed'', VBool False), (''createdAt'', VTime 1000)]],
         online = True, calls = []\<rparr>
      = (Some \<lparr>status = 200,
                body = RendererM [(''message'', JString ''Todo deleted successfully'')]\<rparr>,
         \<lparr>docs = [], online = True, calls = [RemoveIdCall ''0123456789ab'']\<rparr>)
   \<and> online \<lparr>docs = [], online = True, calls = []\<rparr>
   \<and> \<not> list_ex (hasId ''0123456789ab'') (docs \<lparr>docs = [], online = True, calls = []\<rparr>)
   \<and> deleteTodo_part
        \<lparr>URLParam_id = ''303132333435363738396162'', Body = Inl (DecodeError ''EOF'')\<rparr>
        \<lparr>Now = 2000, NewObjectId = ''cdefghijklmn''\<rparr>
        \<lparr>docs = [], online = True, calls = []\<rparr>
      = (Some \<lparr>status = 102,
                body = RendererM [(''message'', JString ''Failed to delete todo''),
                                  (''error'', JError ErrNotFound)]\<rparr>,
         \<lparr>docs = [], online = True, calls = [RemoveIdCall ''0123456789ab'']\<rparr>)
   \<and> \<not> online \<lparr>docs = [], online = False, calls = []\<rparr>
   \<and> deleteTodo_part
        \<lparr>URLParam_id = ''303132333435363738396162'', Body = Inl (DecodeError ''EOF'')\<rparr>
        \<lparr>Now = 2000, NewObjectId = ''cdefghijklmn''\<rparr>
        \<lparr>docs = [], online = False, calls = []\<rparr>
      = (Some \<lparr>status = 102,
                body = RendererM [(''message'', JString ''Failed to delete todo''),
                                  (''error'', JError Unreachable)]\<rparr>,
         \<lparr>docs = [], online = False, calls = [RemoveIdCall ''0123456789ab'']\<rparr>)"
proof -
  have hex: "IsObjectIdHex ''303132333435363738396162''" by code_simp
  have oid: "ObjectIdHex ''303132333435363738396162'' = Some ''0123456789ab''" by code_simp
  show ?thesis
    using hex oid
      deleteTodo_removes_or_reports
        [where r = "\<lparr>URLParam_id = ''303132333435363738396162'', Body = Inl (DecodeError ''EOF'')\<rparr>"
           and e = "\<lparr>Now = 2000, NewObjectId = ''cdefghijklmn''\<rparr>"
           and db = "\<lparr>docs = [[(''_id'', VObjectId ''0123456789ab''), (''title'', VString ''Buy milk''),
                              (''completed'', VBool False), (''createdAt'', VTime 1000)]],
                      online = True, calls = []\<rparr>"]
      deleteTodo_removes_or_reports
        [where r = "\<lparr>URLParam_id = ''303132333435363738396162'', Body = Inl (DecodeError ''EOF'')\<rparr>"
           and e = "\<lparr>Now = 2000, NewObjectId = ''cdefghijklmn''\<rparr>"
           and db = "\<lparr>docs = [], online = True, calls = []\<rparr>"]
      deleteTodo_removes_or_reports
        [where r = "\<lparr>URLParam_id = ''303132333435363738396162'', Body = Inl (DecodeError ''EOF'')\<rparr>"
           and e = "\<lparr>Now = 2000, NewObjectId = ''cdefghijklmn''\<rparr>"
           and db = "\<lparr>docs = [], online = False, calls = []\<rparr>"]
    by (auto simp: hasId_def Cons_eq_append_conv)
qed

text \<open>
  The claim as stated fails when the store is out of reach: the identifier is well-formed
  and the collection holds an item with it, yet the item is not removed and the response
  is the failure with status 102, not the confirmation.
\<close>

theorem deleteTodo_unreachable_store_counterexample:
  "IsObjectIdHex ''303132333435363738396162''
   \<and> ObjectIdHex ''303132333435363738396162'' = Some ''0123456789ab''
   \<and> list_ex (hasId ''0123456789ab'')
        [[(''_id'', VObjectId ''0123456789ab''), (''title'', VString ''Buy milk''),
          (''completed'', VBool False), (''createdAt'', VTime 1000)]]
   \<and> deleteTodo_main
        \<lparr>URLParam_id = ''303132333435363738396162'', Body = Inl (DecodeError ''EOF'')\<rparr>
        \<lparr>Now = 2000, NewObjectId = ''cdefghijklmn''\<rparr>
        \<lparr>docs = [[(''_id'', VObjectId ''0123456789ab''), (''title'', VString ''Buy milk''),
                   (''completed'', VBool False), (''createdAt'', VTime 1000)]],
         online = False, calls = []\<rparr>
      = (Some \<lparr>status = 102,
                body = RendererM [(''message'', JString ''Failed to delete todo''),
                                  (''error'', JError Unreachable)]\<rparr>,
         \<lparr>docs = [[(''_id'', VObjectId ''0123456789ab''), (''title'', VString ''Buy milk''),
                   (''completed'', VBool False), (''createdAt'', VTime 1000)]],
          online = False, calls = [RemoveIdCall ''0123456789ab'']\<rparr>)
   \<and> deleteTodo_part
        \<lparr>URLParam_id = ''303132333435363738396162'', Body = Inl (DecodeError ''EOF'')\<rparr>
        \<lparr>Now = 2000, NewObjectId = ''cdefghijklmn''\<rparr>
        \<lparr>docs = [[(''_id'', VObjectId ''0123456789ab''), (''title'', VString ''Buy milk''),
                   (''completed'', VBool False), (''created_at'', VTime 1000)]],
         online = False, calls = []\<rparr>
      = (Some \<lparr>status = 102,
                body = RendererM [(''message'', JString ''Failed to delete todo''),
                                  (''error'', JError Unreachable)]\<rparr>,
         \<lparr>docs = [[(''_id'', VObjectId ''0123456789ab''), (''title'', VString ''Buy milk''),
                   (''completed'', VBool False), (''created_at'', VTime 1000)]],
          online = False, calls = [RemoveIdCall ''0123456789ab'']\<rparr>)"
  by code_simp

subsection \<open>C8: every stored item keeps a non-empty title\<close>

text \<open>
  Claim C8. When every document of the collection has a non-empty title, it is so again
  after any of the four operations, on any request, in both source files; hence after any
  sequence of requests. \<open>createTodo\<close> and \<open>updateTodo\<close> answer an empty title before
  they call the store, and the documents they write carry the title of the request; the
  list operation writes nothing and the delete operation only takes a document out.
\<close>

theorem handlers_keep_titles_nonempty:
  assumes "allTitled db"
  shows "allTitled (snd (todoHandlers_main rt r e db))
       \<and> allTitled (snd (todoHandlers_part rt r e db))
       \<and> allTitled (serve_main reqs db)
       \<and> allTitled (serve_part reqs db)"
  using assms todoHandlers_allTitled serve_main_allTitled serve_part_allTitled by blast

theorem handlers_keep_titles_nonempty_witness:
  "allTitled \<lparr>docs = [[(''_id'', VObjectId ''0123456789ab''), (''title'', VString ''Buy milk''),
                       (''completed'', VBool False), (''createdAt'', VTime 1000)]],
             online = True, calls = []\<rparr>
   \<and> allTitled (snd (todoHandlers_main PUT_id
        \<lparr>URLParam_id = ''303132333435363738396162'',
         Body = Inr \<lparr>todo.ID = [], Title = ''Buy bread'', Completed = True, CreatedAt = 0\<rparr>\<rparr>
        \<lparr>Now = 2000, NewObjectId = ''cdefghijklmn''\<rparr>
        \<lparr>docs = [[(''_id'', VObjectId ''0123456789ab''), (''title'', VString ''Buy milk''),
                   (''completed'', VBool False), (''createdAt'', VTime 1000)]],
         online = True, calls = []\<rparr>))
   \<and> docs (snd (todoHandlers_main PUT_id
        \<lparr>URLParam_id = ''303132333435363738396162'',
         Body = Inr \<lparr>todo.ID = [], Title = ''Buy bread'', Completed = True, CreatedAt = 0\<rparr>\<rparr>
        \<lparr>Now = 2000, NewObjectId = ''cdefghijklmn''\<rparr>
        \<lparr>docs = [[(''_id'', VObjectId ''0123456789ab''), (''title'', VString ''Buy milk''),
                   (''completed'', VBool False), (''createdAt'', VTime 1000)]],
         online = True, calls = []\<rparr>))
      = [[(''_id'', VObjectId ''0123456789ab''), (''title'', VString ''Buy bread''),
          (''completed'', VBool True)]]"
proof -
  have h: "allTitled \<lparr>docs = [[(''_id'', VObjectId ''0123456789ab''), (''title'', VString ''Buy milk''),
                       (''completed'', VBool False), (''createdAt'', VTime 1000)]],
             online = True, calls = []\<rparr>"
    by code_simp
  have d: "docs (snd (todoHandlers_main PUT_id
        \<lparr>URLParam_id = ''303132333435363738396162'',
         Body = Inr \<lparr>todo.ID = [], Title = ''Buy bread'', Completed = True, CreatedAt = 0\<rparr>\<rparr>
        \<lparr>Now = 2000, NewObjectId = ''cdefghijklmn''\<rparr>
        \<lparr>docs = [[(''_id'', VObjectId ''0123456789ab''), (''title'', VString ''Buy milk''),
                   (''completed'', VBool False), (''createdAt'', VTime 1000)]],
         online = True, calls = []\<rparr>))
      = [[(''_id'', VObjectId ''0123456789ab''), (''title'', VString ''Buy bread''),
          (''completed'', VBool True)]]"
    by code_simp
  from handlers_keep_titles_nonempty [OF h] h d show ?thesis by blast
qed

subsection \<open>C9: the same update twice\<close>

text \<open>
  Claim C9. Applying \<open>updateTodo\<close> a second time with the same identifier and the same
  payload leaves the collection as the first application left it: no stored field changes
  further. This holds for every collection, and for every request, so in particular for
  every valid identifier and every valid payload; the second application may draw other
  values from its environment. Both source files agree.
\<close>

theorem updateTodo_twice_as_once:
  "docs (snd (updateTodo_main r e' (snd (updateTodo_main r e db)))) = docs (snd (updateTodo_main r e db))
 \<and> docs (snd (updateTodo_part r e' (snd (updateTodo_part r e db)))) = docs (snd (updateTodo_part r e db))"
  using updateTodo_main_again updateTodo_part_again by blast

theorem updateTodo_twice_as_once_witness:
  "docs (snd (updateTodo_part
        \<lparr>URLParam_id = ''303132333435363738396162'',
         Body = Inr \<lparr>todo.ID = [], Title = ''Buy bread'', Completed = True, CreatedAt = 0\<rparr>\<rparr>
        \<lparr>Now = 3000, NewObjectId = ''cdefghijklmn''\<rparr>
        (snd (updateTodo_part
           \<lparr>URLParam_id = ''303132333435363738396162'',
            Body = Inr \<lparr>todo.ID = [], Title = ''Buy bread'', Completed = True, CreatedAt = 0\<rparr>\<rparr>
           \<lparr>Now = 2000, NewObjectId = ''cdefghijklmn''\<rparr>
           \<lparr>docs = [[(''_id'', VObjectId ''0123456789ab''), (''title'', VString ''Buy milk''),
                      (''completed'', VBool False), (''created_at'', VTime 1000)]],
            online = True, calls = []\<rparr>))))
   = [[(''_id'', VObjectId ''0123456789ab''), (''title'', VString ''Buy bread''),
       (''completed'', VBool True)]]"
proof -
  have once: "docs (snd (updateTodo_part
           \<lparr>URLParam_id = ''303132333435363738396162'',
            Body = Inr \<lparr>todo.ID = [], Title = ''Buy bread'', Completed = True, CreatedAt = 0\<rparr>\<rparr>
           \<lparr>Now = 2000, NewObjectId = ''cdefghijklmn''\<rparr>
           \<lparr>docs = [[(''_id'', VObjectId ''0123456789ab''), (''title'', VString ''Buy milk''),
                      (''completed'', VBool False), (''created_at'', VTime 1000)]],
            online = True, calls = []\<rparr>))
   = [[(''_id'', VObjectId ''0123456789ab''), (''title'', VString ''Buy bread''),
       (''completed'', VBool True)]]"
    by code_simp
  from updateTodo_twice_as_once
         [where r = "\<lparr>URLParam_id = ''303132333435363738396162'',
            Body = Inr \<lparr>todo.ID = [], Title = ''Buy bread'', Completed = True, CreatedAt = 0\<rparr>\<rparr>"
            and e = "\<lparr>Now = 2000, NewObjectId = ''cdefghijklmn''\<rparr>"
            and e' = "\<lparr>Now = 3000, NewObjectId = ''cdefghijklmn''\<rparr>"
            and db = "\<lparr>docs = [[(''_id'', VObjectId ''0123456789ab''), (''title'', VString ''Buy milk''),
                      (''completed'', VBool False), (''created_at'', VTime 1000)]],
            online = True, calls = []\<rparr>"]
       once
  show ?thesis by simp
qed

subsection \<open>C10: white space around the identifier\<close>



end
